theory Spec2Isabelle
  imports Complex_Main
begin

section \<open>Frame algebra\<close>

text \<open>
  The header \<^verbatim>\<open>MobilizedBody.h\<close> computes with SimTK's \<^verbatim>\<open>Real\<close>, \<^verbatim>\<open>Vec3\<close>,
  \<^verbatim>\<open>Rotation\<close>, \<^verbatim>\<open>Transform\<close> and \<^verbatim>\<open>SpatialVec\<close>, whose own headers are not part of
  the sources at hand. \<^verbatim>\<open>Real\<close> is taken to be the field of real numbers: rounding of
  the machine's double precision numbers is not modelled, so an equation proved below
  is an equation of the exact quantities.
\<close>

type_synonym Vec3 = "real \<times> real \<times> real"

type_synonym Mat33 = "Vec3 \<times> Vec3 \<times> Vec3"

text \<open>Modelled from the spec: the \<^verbatim>\<open>Vec3\<close> operators \<^verbatim>\<open>+\<close>, \<^verbatim>\<open>-\<close> (binary and unary),
  \<^verbatim>\<open>%\<close> (cross product), \<^verbatim>\<open>dot\<close>, \<^verbatim>\<open>norm\<close>, scalar \<^verbatim>\<open>*\<close> and \<^verbatim>\<open>/\<close>; their header is
  missing.\<close>

fun vadd :: "Vec3 \<Rightarrow> Vec3 \<Rightarrow> Vec3" where
  "vadd (a1, a2, a3) (b1, b2, b3) = (a1 + b1, a2 + b2, a3 + b3)"

fun vsub :: "Vec3 \<Rightarrow> Vec3 \<Rightarrow> Vec3" where
  "vsub (a1, a2, a3) (b1, b2, b3) = (a1 - b1, a2 - b2, a3 - b3)"

fun vneg :: "Vec3 \<Rightarrow> Vec3" where
  "vneg (a1, a2, a3) = (- a1, - a2, - a3)"

fun cross :: "Vec3 \<Rightarrow> Vec3 \<Rightarrow> Vec3" where
  "cross (a1, a2, a3) (b1, b2, b3) =
     (a2 * b3 - a3 * b2, a3 * b1 - a1 * b3, a1 * b2 - a2 * b1)"

fun dot :: "Vec3 \<Rightarrow> Vec3 \<Rightarrow> real" where
  "dot (a1, a2, a3) (b1, b2, b3) = a1 * b1 + a2 * b2 + a3 * b3"

definition norm3 :: "Vec3 \<Rightarrow> real" where
  "norm3 v = sqrt (dot v v)"

fun smul :: "real \<Rightarrow> Vec3 \<Rightarrow> Vec3" where
  "smul k (a1, a2, a3) = (k * a1, k * a2, k * a3)"

fun sdiv :: "Vec3 \<Rightarrow> real \<Rightarrow> Vec3" where
  "sdiv (a1, a2, a3) k = (a1 / k, a2 / k, a3 / k)"

definition zero3 :: Vec3 where
  "zero3 = (0, 0, 0)"

text \<open>Modelled from the spec: \<^verbatim>\<open>Rotation\<close>, an orthonormal 3 by 3 matrix, kept as its three
  rows; \<^verbatim>\<open>~R\<close> is the transpose, \<^verbatim>\<open>R*v\<close> re-expresses a vector and \<^verbatim>\<open>R1*R2\<close> composes.
  The class is missing from the sources.\<close>

type_synonym Rotation = Mat33

fun transpose33 :: "Mat33 \<Rightarrow> Mat33" where
  "transpose33 ((a, b, c), (d, e, f), (g, h, i)) = ((a, d, g), (b, e, h), (c, f, i))"

fun mvmul :: "Mat33 \<Rightarrow> Vec3 \<Rightarrow> Vec3" where
  "mvmul (r1, r2, r3) v = (dot r1 v, dot r2 v, dot r3 v)"

fun mmul :: "Mat33 \<Rightarrow> Mat33 \<Rightarrow> Mat33" where
  "mmul (r1, r2, r3) m =
     (case transpose33 m of (c1, c2, c3) \<Rightarrow>
        ((dot r1 c1, dot r1 c2, dot r1 c3),
         (dot r2 c1, dot r2 c2, dot r2 c3),
         (dot r3 c1, dot r3 c2, dot r3 c3)))"

definition ident33 :: Mat33 where
  "ident33 = ((1, 0, 0), (0, 1, 0), (0, 0, 1))"

text \<open>The invariant of the class \<^verbatim>\<open>Rotation\<close>: the matrix is orthonormal, so its transpose
  is its inverse on both sides.\<close>

definition isRotation :: "Mat33 \<Rightarrow> bool" where
  "isRotation m \<longleftrightarrow>
     mmul m (transpose33 m) = ident33 \<and> mmul (transpose33 m) m = ident33"

text \<open>Modelled from the spec: \<^verbatim>\<open>Transform\<close>, orientation plus origin offset, with \<^verbatim>\<open>X*v\<close>
  (a station of the frame measured in the base frame), \<^verbatim>\<open>X*Y\<close> (composition,
  \<open>X_AC = X_AB \<circ> X_BC\<close>) and \<^verbatim>\<open>~X\<close> (inversion, \<open>X_BA = X_AB\<inverse>\<close>). The class is
  missing from the sources.\<close>

record Transform =
  X_R :: Rotation
  X_p :: Vec3

text \<open>Modelled from the spec: \<^verbatim>\<open>X*v\<close> for a transform and a station, \<open>p + R v\<close>.\<close>

definition xformPoint :: "Transform \<Rightarrow> Vec3 \<Rightarrow> Vec3" where
  "xformPoint X v = vadd (X_p X) (mvmul (X_R X) v)"

text \<open>Modelled from the spec: \<^verbatim>\<open>X*Y\<close> for two transforms, \<open>X_AC = X_AB \<circ> X_BC\<close>.\<close>

definition compose :: "Transform \<Rightarrow> Transform \<Rightarrow> Transform" where
  "compose X Y =
     \<lparr>X_R = mmul (X_R X) (X_R Y), X_p = vadd (X_p X) (mvmul (X_R X) (X_p Y))\<rparr>"

text \<open>Modelled from the spec: \<^verbatim>\<open>~X\<close>, the inverse transform \<open>X_BA\<close> of \<open>X_AB\<close>.\<close>

definition invert :: "Transform \<Rightarrow> Transform" where
  "invert X =
     \<lparr>X_R = transpose33 (X_R X), X_p = vneg (mvmul (transpose33 (X_R X)) (X_p X))\<rparr>"

definition identityTransform :: Transform where
  "identityTransform = \<lparr>X_R = ident33, X_p = zero3\<rparr>"

text \<open>\<^verbatim>\<open>SpatialVec\<close>: the pair (angular, linear); \<^verbatim>\<open>V[0]\<close> is \<^const>\<open>fst\<close>, \<^verbatim>\<open>V[1]\<close> is
  \<^const>\<open>snd\<close>. A rotation re-expresses both parts.\<close>

type_synonym SpatialVec = "Vec3 \<times> Vec3"

definition rexpressSpatial :: "Rotation \<Rightarrow> SpatialVec \<Rightarrow> SpatialVec" where
  "rexpressSpatial m V = (mvmul m (fst V), mvmul m (snd V))"

section \<open>Staged state cache\<close>

datatype Stage =
  Topology | Model | Instance | Time | Position | Velocity | Dynamics | Acceleration

text \<open>The strict total order \<open>Topology < Model < \<dots> < Acceleration\<close>, as a rank; rank 0
  is left for a state in which nothing is valid yet.\<close>

fun stageNum :: "Stage \<Rightarrow> nat" where
  "stageNum Topology = 1"
| "stageNum Model = 2"
| "stageNum Instance = 3"
| "stageNum Time = 4"
| "stageNum Position = 5"
| "stageNum Velocity = 6"
| "stageNum Dynamics = 7"
| "stageNum Acceleration = 8"

datatype error =
  StageViolation | TopologyError | IndexOutOfRange | GroundHasNoParent
  | AssertFailed string

type_synonym 'a result = "error + 'a"

text \<open>Sequencing of calls that may throw: the first exception ends the computation.\<close>

definition bindE :: "'a result \<Rightarrow> ('a \<Rightarrow> 'b result) \<Rightarrow> 'b result" where
  "bindE m f = (case m of Inl e \<Rightarrow> Inl e | Inr x \<Rightarrow> f x)"

text \<open>A mobilized body is named by its \<^verbatim>\<open>MobilizedBodyIndex\<close>. The state holds the
  validity ceiling, the generalized coordinates and speeds of every mobilizer, and the
  cached absolute pose, velocity and acceleration of every body.\<close>

type_synonym MobilizedBodyIndex = nat

record State =
  validThrough :: nat
  qOf :: "MobilizedBodyIndex \<Rightarrow> real list"
  uOf :: "MobilizedBodyIndex \<Rightarrow> real list"
  X_GB_cache :: "MobilizedBodyIndex \<Rightarrow> Transform"
  V_GB_cache :: "MobilizedBodyIndex \<Rightarrow> SpatialVec"
  A_GB_cache :: "MobilizedBodyIndex \<Rightarrow> SpatialVec"

definition isValid :: "State \<Rightarrow> Stage \<Rightarrow> bool" where
  "isValid s g \<longleftrightarrow> stageNum g \<le> validThrough s"

text \<open>Modelled from the spec: reading a cached quantity defined at stage \<open>S\<close>; the cache
  access behind the accessors declared in the header is missing. The read needs \<open>S\<close>
  to be valid and fails with \<open>StageViolation\<close> otherwise.\<close>

definition readCache :: "State \<Rightarrow> Stage \<Rightarrow> 'a \<Rightarrow> 'a result" where
  "readCache s g x = (if isValid s g then Inr x else Inl StageViolation)"

text \<open>Modelled from the spec: \<^verbatim>\<open>realize(stage)\<close>, which is missing from the sources. It
  needs every stage below to be valid, does nothing when the stage is valid already,
  and otherwise fills the cache of that stage (the propagator \<open>calc\<close>, a parameter) and
  marks the stage valid.\<close>

definition realize :: "(Stage \<Rightarrow> State \<Rightarrow> State) \<Rightarrow> State \<Rightarrow> Stage \<Rightarrow> State result" where
  "realize calc s g =
     (if stageNum g \<le> validThrough s then Inr s
      else if stageNum g - 1 \<le> validThrough s
        then Inr ((calc g s)\<lparr>validThrough := stageNum g\<rparr>)
      else Inl StageViolation)"

text \<open>A caller's sequence of realize requests; a request that fails leaves the state
  as it was, and the caller goes on.\<close>

fun realizeEach :: "(Stage \<Rightarrow> State \<Rightarrow> State) \<Rightarrow> State \<Rightarrow> Stage list \<Rightarrow> State" where
  "realizeEach calc s [] = s"
| "realizeEach calc s (g # gs) =
     (case realize calc s g of
        Inl e \<Rightarrow> realizeEach calc s gs
      | Inr s' \<Rightarrow> realizeEach calc s' gs)"

subsection \<open>State access: bodies\<close>

text \<open>Modelled from the spec: \<^verbatim>\<open>getBodyTransform\<close>, declared in the header and defined
  elsewhere; the response \<open>X_GB\<close> is available at Position stage.\<close>

definition getBodyTransform :: "State \<Rightarrow> MobilizedBodyIndex \<Rightarrow> Transform result" where
  "getBodyTransform s b = readCache s Position (X_GB_cache s b)"

text \<open>Modelled from the spec: \<^verbatim>\<open>getBodyVelocity\<close>, declared only; available at
  Velocity stage.\<close>

definition getBodyVelocity :: "State \<Rightarrow> MobilizedBodyIndex \<Rightarrow> SpatialVec result" where
  "getBodyVelocity s b = readCache s Velocity (V_GB_cache s b)"

text \<open>Modelled from the spec: \<^verbatim>\<open>getBodyAcceleration\<close>, declared only; available at
  Acceleration stage.\<close>

definition getBodyAcceleration :: "State \<Rightarrow> MobilizedBodyIndex \<Rightarrow> SpatialVec result" where
  "getBodyAcceleration s b = readCache s Acceleration (A_GB_cache s b)"

definition getBodyRotation :: "State \<Rightarrow> MobilizedBodyIndex \<Rightarrow> Rotation result" where
  "getBodyRotation s b = bindE (getBodyTransform s b) (\<lambda>X. Inr (X_R X))"

definition getBodyOriginLocation :: "State \<Rightarrow> MobilizedBodyIndex \<Rightarrow> Vec3 result" where
  "getBodyOriginLocation s b = bindE (getBodyTransform s b) (\<lambda>X. Inr (X_p X))"

definition getBodyAngularVelocity :: "State \<Rightarrow> MobilizedBodyIndex \<Rightarrow> Vec3 result" where
  "getBodyAngularVelocity s b = bindE (getBodyVelocity s b) (\<lambda>V. Inr (fst V))"

definition getBodyOriginVelocity :: "State \<Rightarrow> MobilizedBodyIndex \<Rightarrow> Vec3 result" where
  "getBodyOriginVelocity s b = bindE (getBodyVelocity s b) (\<lambda>V. Inr (snd V))"

definition getBodyAngularAcceleration :: "State \<Rightarrow> MobilizedBodyIndex \<Rightarrow> Vec3 result" where
  "getBodyAngularAcceleration s b = bindE (getBodyAcceleration s b) (\<lambda>A. Inr (fst A))"

definition getBodyOriginAcceleration :: "State \<Rightarrow> MobilizedBodyIndex \<Rightarrow> Vec3 result" where
  "getBodyOriginAcceleration s b = bindE (getBodyAcceleration s b) (\<lambda>A. Inr (snd A))"

section \<open>Basic operators\<close>

text \<open>The inline operators of the header, in the order of the header. \<open>b\<close> is "this"
  body B, \<open>inBodyA\<close> (or \<open>toBodyA\<close>, \<open>bodyA\<close>) the other body A.\<close>

definition expressVectorInGroundFrame ::
  "State \<Rightarrow> MobilizedBodyIndex \<Rightarrow> Vec3 \<Rightarrow> Vec3 result" where
  "expressVectorInGroundFrame s b vectorInB =
     bindE (getBodyRotation s b) (\<lambda>R_GB. Inr (mvmul R_GB vectorInB))"

definition expressGroundVectorInBodyFrame ::
  "State \<Rightarrow> MobilizedBodyIndex \<Rightarrow> Vec3 \<Rightarrow> Vec3 result" where
  "expressGroundVectorInBodyFrame s b vectorInG =
     bindE (getBodyRotation s b) (\<lambda>R_GB. Inr (mvmul (transpose33 R_GB) vectorInG))"

definition expressVectorInAnotherBodyFrame ::
  "State \<Rightarrow> MobilizedBodyIndex \<Rightarrow> Vec3 \<Rightarrow> MobilizedBodyIndex \<Rightarrow> Vec3 result" where
  "expressVectorInAnotherBodyFrame s b vectorInB inBodyA =
     bindE (expressVectorInGroundFrame s b vectorInB) (\<lambda>vectorInG.
       expressGroundVectorInBodyFrame s inBodyA vectorInG)"

definition findBodyTransformInAnotherBody ::
  "State \<Rightarrow> MobilizedBodyIndex \<Rightarrow> MobilizedBodyIndex \<Rightarrow> Transform result" where
  "findBodyTransformInAnotherBody s b inBodyA =
     bindE (getBodyTransform s inBodyA) (\<lambda>X_GA.
     bindE (getBodyTransform s b) (\<lambda>X_GB.
       Inr (compose (invert X_GA) X_GB)))"

definition findBodyRotationInAnotherBody ::
  "State \<Rightarrow> MobilizedBodyIndex \<Rightarrow> MobilizedBodyIndex \<Rightarrow> Rotation result" where
  "findBodyRotationInAnotherBody s b inBodyA =
     bindE (getBodyRotation s inBodyA) (\<lambda>R_GA.
     bindE (getBodyRotation s b) (\<lambda>R_GB.
       Inr (mmul (transpose33 R_GA) R_GB)))"

definition findStationLocationInGround ::
  "State \<Rightarrow> MobilizedBodyIndex \<Rightarrow> Vec3 \<Rightarrow> Vec3 result" where
  "findStationLocationInGround s b stationOnB =
     bindE (getBodyTransform s b) (\<lambda>X_GB. Inr (xformPoint X_GB stationOnB))"

definition findStationAtGroundPoint ::
  "State \<Rightarrow> MobilizedBodyIndex \<Rightarrow> Vec3 \<Rightarrow> Vec3 result" where
  "findStationAtGroundPoint s b locationInG =
     bindE (getBodyTransform s b) (\<lambda>X_GB. Inr (xformPoint (invert X_GB) locationInG))"

definition findBodyOriginLocationInAnotherBody ::
  "State \<Rightarrow> MobilizedBodyIndex \<Rightarrow> MobilizedBodyIndex \<Rightarrow> Vec3 result" where
  "findBodyOriginLocationInAnotherBody s b toBodyA =
     bindE (getBodyOriginLocation s b) (\<lambda>p_GB. findStationAtGroundPoint s toBodyA p_GB)"

definition findBodyVelocityInAnotherBody ::
  "State \<Rightarrow> MobilizedBodyIndex \<Rightarrow> MobilizedBodyIndex \<Rightarrow> SpatialVec result" where
  "findBodyVelocityInAnotherBody s b inBodyA =
     bindE (getBodyVelocity s b) (\<lambda>V_GB.
     bindE (getBodyVelocity s inBodyA) (\<lambda>V_GA.
     let w_AB_G = vsub (fst V_GB) (fst V_GA) in
     bindE (getBodyTransform s b) (\<lambda>X_GB.
     bindE (getBodyTransform s inBodyA) (\<lambda>X_GA.
     let p_AB_G = vsub (X_p X_GB) (X_p X_GA);
         p_AB_G_dot = vsub (snd V_GB) (snd V_GA);
         v_AB_G = vsub p_AB_G_dot (cross (fst V_GA) p_AB_G)
     in Inr (rexpressSpatial (transpose33 (X_R X_GA)) (w_AB_G, v_AB_G))))))"

definition findBodyAngularVelocityInAnotherBody ::
  "State \<Rightarrow> MobilizedBodyIndex \<Rightarrow> MobilizedBodyIndex \<Rightarrow> Vec3 result" where
  "findBodyAngularVelocityInAnotherBody s b inBodyA =
     bindE (getBodyAngularVelocity s b) (\<lambda>w_GB.
     bindE (getBodyAngularVelocity s inBodyA) (\<lambda>w_GA.
     let w_AB_G = vsub w_GB w_GA in
       expressGroundVectorInBodyFrame s inBodyA w_AB_G))"

definition findBodyOriginVelocityInAnotherBody ::
  "State \<Rightarrow> MobilizedBodyIndex \<Rightarrow> MobilizedBodyIndex \<Rightarrow> Vec3 result" where
  "findBodyOriginVelocityInAnotherBody s b inBodyA =
     bindE (findBodyVelocityInAnotherBody s b inBodyA) (\<lambda>V_AB. Inr (snd V_AB))"

definition findStationVelocityInGround ::
  "State \<Rightarrow> MobilizedBodyIndex \<Rightarrow> Vec3 \<Rightarrow> Vec3 result" where
  "findStationVelocityInGround s b stationOnB =
     bindE (getBodyAngularVelocity s b) (\<lambda>w.
     bindE (getBodyOriginVelocity s b) (\<lambda>v.
     bindE (expressVectorInGroundFrame s b stationOnB) (\<lambda>r.
       Inr (vadd v (cross w r)))))"

definition findStationAccelerationInGround ::
  "State \<Rightarrow> MobilizedBodyIndex \<Rightarrow> Vec3 \<Rightarrow> Vec3 result" where
  "findStationAccelerationInGround s b stationOnB =
     bindE (getBodyAngularVelocity s b) (\<lambda>w.
     bindE (getBodyAngularAcceleration s b) (\<lambda>bb.
     bindE (getBodyOriginAcceleration s b) (\<lambda>a.
     bindE (expressVectorInGroundFrame s b stationOnB) (\<lambda>r.
       Inr (vadd (vadd a (cross bb r)) (cross w (cross w r)))))))"

text \<open>The two fused operators write their results through reference parameters; the
  model returns them as a tuple (location, velocity) or (location, velocity,
  acceleration).\<close>

definition findStationLocationAndVelocityInGround ::
  "State \<Rightarrow> MobilizedBodyIndex \<Rightarrow> Vec3 \<Rightarrow> (Vec3 \<times> Vec3) result" where
  "findStationLocationAndVelocityInGround s b locationOnB =
     bindE (getBodyOriginLocation s b) (\<lambda>p_GB.
     bindE (expressVectorInGroundFrame s b locationOnB) (\<lambda>p_BS_G.
     let locationOnGround = vadd p_GB p_BS_G in
     bindE (getBodyAngularVelocity s b) (\<lambda>w_GB.
     bindE (getBodyOriginVelocity s b) (\<lambda>v_GB.
     let velocityInGround = vadd v_GB (cross w_GB p_BS_G) in
       Inr (locationOnGround, velocityInGround)))))"

definition findStationLocationVelocityAndAccelerationInGround ::
  "State \<Rightarrow> MobilizedBodyIndex \<Rightarrow> Vec3 \<Rightarrow> (Vec3 \<times> Vec3 \<times> Vec3) result" where
  "findStationLocationVelocityAndAccelerationInGround s b locationOnB =
     bindE (getBodyRotation s b) (\<lambda>R_GB.
     bindE (getBodyOriginLocation s b) (\<lambda>p_GB.
     let r = mvmul R_GB locationOnB;
         locationOnGround = vadd p_GB r in
     bindE (getBodyAngularVelocity s b) (\<lambda>w.
     bindE (getBodyOriginVelocity s b) (\<lambda>v.
     bindE (getBodyAngularAcceleration s b) (\<lambda>bb.
     bindE (getBodyOriginAcceleration s b) (\<lambda>a.
     let wXr = cross w r;
         velocityInGround = vadd v wXr;
         accelerationInGround = vadd (vadd a (cross bb r)) (cross w wXr)
     in Inr (locationOnGround, velocityInGround, accelerationInGround)))))))"

section \<open>High-level operators\<close>

text \<open>\<^verbatim>\<open>isSameMobilizedBody\<close> is declared only: two handles are the same mobilized body
  when they name the same implementation object, here the same index.\<close>

definition isSameMobilizedBody :: "MobilizedBodyIndex \<Rightarrow> MobilizedBodyIndex \<Rightarrow> bool" where
  "isSameMobilizedBody b bodyA \<longleftrightarrow> b = bodyA"

definition calcStationToStationDistance ::
  "State \<Rightarrow> MobilizedBodyIndex \<Rightarrow> Vec3 \<Rightarrow> MobilizedBodyIndex \<Rightarrow> Vec3 \<Rightarrow> real result" where
  "calcStationToStationDistance s b locationOnBodyB bodyA locationOnBodyA =
     (if isSameMobilizedBody b bodyA
        then Inr (norm3 (vsub locationOnBodyA locationOnBodyB))
      else
        bindE (findStationLocationInGround s b locationOnBodyB) (\<lambda>r_Go_PB.
        bindE (findStationLocationInGround s bodyA locationOnBodyA) (\<lambda>r_Go_PA.
          Inr (norm3 (vsub r_Go_PA r_Go_PB)))))"

definition calcStationToStationDistanceTimeDerivative ::
  "State \<Rightarrow> MobilizedBodyIndex \<Rightarrow> Vec3 \<Rightarrow> MobilizedBodyIndex \<Rightarrow> Vec3 \<Rightarrow> real result" where
  "calcStationToStationDistanceTimeDerivative s b locationOnBodyB bodyA locationOnBodyA =
     (if isSameMobilizedBody b bodyA then Inr 0
      else
        bindE (findStationLocationAndVelocityInGround s b locationOnBodyB) (\<lambda>(rB, vB).
        bindE (findStationLocationAndVelocityInGround s bodyA locationOnBodyA) (\<lambda>(rA, vA).
        let r = vsub rA rB; v = vsub vA vB;
            d = norm3 r
        in if d = 0 then Inr (norm3 v)
           else Inr (dot v (sdiv r d)))))"

definition calcStationToStationDistance2ndTimeDerivative ::
  "State \<Rightarrow> MobilizedBodyIndex \<Rightarrow> Vec3 \<Rightarrow> MobilizedBodyIndex \<Rightarrow> Vec3 \<Rightarrow> real result" where
  "calcStationToStationDistance2ndTimeDerivative s b locationOnBodyB bodyA locationOnBodyA =
     (if isSameMobilizedBody b bodyA then Inr 0
      else
        bindE (findStationLocationVelocityAndAccelerationInGround s b locationOnBodyB)
          (\<lambda>(rB, vB, aB).
        bindE (findStationLocationVelocityAndAccelerationInGround s bodyA locationOnBodyA)
          (\<lambda>(rA, vA, aA).
        let r = vsub rA rB; v = vsub vA vB; a = vsub aA aB;
            d = norm3 r
        in if d = 0 then
             (let speed = norm3 v
              in if speed = 0 then Inr (norm3 a)
                 else Inr (dot a (sdiv v speed)))
           else
             (let u = sdiv r d;
                  vp = vsub v (smul (dot v u) u)
              in Inr (dot a u + dot vp v / d)))))"

subsection \<open>Operators that are not implemented\<close>

text \<open>Modelled from the spec: the macro \<^verbatim>\<open>SimTK_ASSERT_ALWAYS(cond, msg)\<close>, whose header is
  missing: an assertion that is checked in every build and throws when \<open>cond\<close> is
  false.\<close>

definition SimTK_ASSERT_ALWAYS :: "bool \<Rightarrow> string \<Rightarrow> unit result" where
  "SimTK_ASSERT_ALWAYS cond msg = (if cond then Inr () else Inl (AssertFailed msg))"

text \<open>The value the stubs would return if control passed the assertion: \<^verbatim>\<open>NaN\<close>,
  \<^verbatim>\<open>Vec3::getNaN()\<close>, or a fresh \<^verbatim>\<open>SpatialVec\<close> that was never assigned. The real numbers
  have no such element, so the return type gets one.\<close>

datatype 'a orNaN = NaN | Number 'a

text \<open>The condition of each assertion is \<^verbatim>\<open>!"unimplemented method"\<close>: the negation of a
  string literal, which as a pointer is not null, hence \<open>False\<close>.\<close>

definition getMobilizerAcceleration ::
  "State \<Rightarrow> MobilizedBodyIndex \<Rightarrow> SpatialVec orNaN result" where
  "getMobilizerAcceleration s b =
     bindE (SimTK_ASSERT_ALWAYS False
       ''MobilizedBody::getMobilizerAcceleration() is not yet implemented -- any volunteers?'')
       (\<lambda>_. Inr NaN)"

definition calcBodyMovingPointVelocityInBody ::
  "State \<Rightarrow> MobilizedBodyIndex \<Rightarrow> Vec3 \<Rightarrow> Vec3 \<Rightarrow> MobilizedBodyIndex \<Rightarrow> Vec3 orNaN result" where
  "calcBodyMovingPointVelocityInBody s b locationOnBodyB velocityOnBodyB inBodyA =
     bindE (SimTK_ASSERT_ALWAYS False
       ''MobilizedBody::calcBodyMovingPointVelocityInBody() is not yet implemented -- any volunteers?'')
       (\<lambda>_. Inr NaN)"

definition calcBodyMovingPointAccelerationInBody ::
  "State \<Rightarrow> MobilizedBodyIndex \<Rightarrow> Vec3 \<Rightarrow> Vec3 \<Rightarrow> Vec3 \<Rightarrow> MobilizedBodyIndex
     \<Rightarrow> Vec3 orNaN result" where
  "calcBodyMovingPointAccelerationInBody s b locationOnBodyB velocityOnBodyB
       accelerationOnBodyB inBodyA =
     bindE (SimTK_ASSERT_ALWAYS False
       ''MobilizedBody::calcBodyMovingPointAccelerationInBody() is not yet implemented -- any volunteers?'')
       (\<lambda>_. Inr NaN)"

definition calcMovingPointToPointDistanceTimeDerivative ::
  "State \<Rightarrow> MobilizedBodyIndex \<Rightarrow> Vec3 \<Rightarrow> Vec3 \<Rightarrow> MobilizedBodyIndex \<Rightarrow> Vec3 \<Rightarrow> Vec3
     \<Rightarrow> real orNaN result" where
  "calcMovingPointToPointDistanceTimeDerivative s b locationOnBodyB velocityOnBodyB
       bodyA locationOnBodyA velocityOnBodyA =
     bindE (SimTK_ASSERT_ALWAYS False
       ''MobilizedBody::calcMovingPointToPointDistanceTimeDerivative() is not yet implemented -- any volunteers?'')
       (\<lambda>_. Inr NaN)"

definition calcMovingPointToPointDistance2ndTimeDerivative ::
  "State \<Rightarrow> MobilizedBodyIndex \<Rightarrow> Vec3 \<Rightarrow> Vec3 \<Rightarrow> Vec3 \<Rightarrow> MobilizedBodyIndex
     \<Rightarrow> Vec3 \<Rightarrow> Vec3 \<Rightarrow> Vec3 \<Rightarrow> real orNaN result" where
  "calcMovingPointToPointDistance2ndTimeDerivative s b locationOnBodyB velocityOnBodyB
       accelerationOnBodyB bodyA locationOnBodyA velocityOnBodyA accelerationOnBodyA =
     bindE (SimTK_ASSERT_ALWAYS False
       ''MobilizedBody::calcMovingPointToPointDistance2ndTimeDerivative() is not yet implemented -- any volunteers?'')
       (\<lambda>_. Inr NaN)"

subsection \<open>The mirrored relative velocity\<close>

text \<open>The symmetry property as the specification words it: the relative velocity taken
  from the other perspective (A in B), negated, and re-expressed from B's frame into A's
  frame with \<^const>\<open>expressVectorInAnotherBodyFrame\<close>.\<close>

definition specMirroredBodyVelocity ::
  "State \<Rightarrow> MobilizedBodyIndex \<Rightarrow> MobilizedBodyIndex \<Rightarrow> SpatialVec result" where
  "specMirroredBodyVelocity s b inBodyA =
     bindE (findBodyVelocityInAnotherBody s inBodyA b) (\<lambda>V_BA.
     bindE (expressVectorInAnotherBodyFrame s b (vneg (fst V_BA)) inBodyA) (\<lambda>w.
     bindE (expressVectorInAnotherBodyFrame s b (vneg (snd V_BA)) inBodyA) (\<lambda>v.
       Inr (w, v))))"

section \<open>Body tree\<close>

text \<open>Modelled from the spec: the tree of mobilized bodies with \<^verbatim>\<open>addBody\<close>,
  \<^verbatim>\<open>finalizeTopology\<close> and the queries \<^verbatim>\<open>getParentMobilizedBody\<close> and
  \<^verbatim>\<open>getLevelInMultibodyTree\<close>. The header only declares the queries; the matter subsystem
  that owns the nodes is missing. A node keeps its parent's index (Ground has none) and
  the numbers of coordinates and speeds of its mobilizer; the nodes sit in a flat array
  in index order. Finalizing caches every node's level and the offsets of its
  coordinates and speeds, the prefix sums in index order.\<close>

record Node =
  parentIndex :: "MobilizedBodyIndex option"
  numQ :: nat
  numU :: nat

record Tree =
  nodes :: "Node list"
  levels :: "nat list"
  qStart :: "nat list"
  uStart :: "nat list"
  topologyRealized :: bool

definition groundNode :: Node where
  "groundNode = \<lparr>parentIndex = None, numQ = 0, numU = 0\<rparr>"

definition newTree :: Tree where
  "newTree = \<lparr>nodes = [groundNode], levels = [], qStart = [], uStart = [],
               topologyRealized = False\<rparr>"

text \<open>Modelled from the spec: \<^verbatim>\<open>addBody\<close>, missing from the sources. It appends a node
  with the next index and fails with \<open>TopologyError\<close> when the parent is not a node of
  the tree; the edit leaves the topology to be finalized again.\<close>

definition addBody ::
  "Tree \<Rightarrow> MobilizedBodyIndex \<Rightarrow> nat \<Rightarrow> nat \<Rightarrow> (MobilizedBodyIndex \<times> Tree) result" where
  "addBody t parent nq nu =
     (if parent < length (nodes t)
        then Inr (length (nodes t),
                  t\<lparr>nodes := nodes t @ [\<lparr>parentIndex = Some parent, numQ = nq, numU = nu\<rparr>],
                    topologyRealized := False\<rparr>)
      else Inl TopologyError)"

text \<open>One pass in ascending index order; a node's level is its parent's level, already
  computed, plus one.\<close>

definition levelStep :: "nat list \<Rightarrow> Node \<Rightarrow> nat list" where
  "levelStep acc n =
     acc @ [case parentIndex n of None \<Rightarrow> 0 | Some parent \<Rightarrow> acc ! parent + 1]"

definition computeLevels :: "Node list \<Rightarrow> nat list" where
  "computeLevels ns = foldl levelStep [] ns"

fun prefixSums :: "nat \<Rightarrow> nat list \<Rightarrow> nat list" where
  "prefixSums acc [] = []"
| "prefixSums acc (n # ns) = acc # prefixSums (acc + n) ns"

text \<open>Modelled from the spec: \<^verbatim>\<open>finalizeTopology\<close>, missing from the sources.\<close>

definition finalizeTopology :: "Tree \<Rightarrow> Tree" where
  "finalizeTopology t =
     t\<lparr>levels := computeLevels (nodes t),
       qStart := prefixSums 0 (map numQ (nodes t)),
       uStart := prefixSums 0 (map numU (nodes t)),
       topologyRealized := True\<rparr>"

text \<open>Modelled from the spec: \<^verbatim>\<open>getParentMobilizedBody\<close>, declared only; the call fails
  for Ground, which has no parent.\<close>

definition getParentMobilizedBody ::
  "Tree \<Rightarrow> MobilizedBodyIndex \<Rightarrow> MobilizedBodyIndex result" where
  "getParentMobilizedBody t b =
     (if b < length (nodes t)
        then (case parentIndex (nodes t ! b) of
                None \<Rightarrow> Inl GroundHasNoParent
              | Some parent \<Rightarrow> Inr parent)
      else Inl IndexOutOfRange)"

text \<open>Modelled from the spec: \<^verbatim>\<open>getLevelInMultibodyTree\<close>, declared only; it reads the
  level cached when the topology was finalized, and is callable only after that.\<close>

definition getLevelInMultibodyTree :: "Tree \<Rightarrow> MobilizedBodyIndex \<Rightarrow> nat result" where
  "getLevelInMultibodyTree t b =
     (if \<not> topologyRealized t then Inl StageViolation
      else if b < length (nodes t) then Inr (levels t ! b)
      else Inl IndexOutOfRange)"

text \<open>Modelled from the spec: \<^verbatim>\<open>isGround\<close>, declared only; Ground is body 0.\<close>

definition isGround :: "MobilizedBodyIndex \<Rightarrow> bool" where
  "isGround b \<longleftrightarrow> b = 0"

text \<open>The index invariant of the node array: it holds Ground, at index 0 and without a
  parent, and every other node has a parent of smaller index.\<close>

definition parentsBelow :: "Node list \<Rightarrow> bool" where
  "parentsBelow ns \<longleftrightarrow>
     (\<forall>b < length ns. \<forall>parent. parentIndex (ns ! b) = Some parent \<longrightarrow> parent < b)"

definition wfNodes :: "Node list \<Rightarrow> bool" where
  "wfNodes ns \<longleftrightarrow>
     ns \<noteq> [] \<and> parentIndex (ns ! 0) = None \<and>
     (\<forall>b < length ns. 0 < b \<longrightarrow> parentIndex (ns ! b) \<noteq> None) \<and>
     parentsBelow ns"

text \<open>The trees a caller can build: a new tree holds Ground alone; every successful
  \<^const>\<open>addBody\<close> and every \<^const>\<open>finalizeTopology\<close> gives another one.\<close>

inductive constructed :: "Tree \<Rightarrow> bool" where
  new: "constructed newTree"
| add: "constructed t \<Longrightarrow> addBody t parent nq nu = Inr (b, t') \<Longrightarrow> constructed t'"
| finalize: "constructed t \<Longrightarrow> constructed (finalizeTopology t)"

section \<open>Fitting setters of a mobilizer\<close>

text \<open>Modelled from the spec: \<^verbatim>\<open>setOneQ\<close> and the fitting setters are declared in the
  header and defined per mobilizer elsewhere. Every generalized coordinate of a
  mobilizer has rotational or translational character. A fitting setter asks the
  mobilizer for the coordinates that approximate the request best (\<open>fitRotation\<close>,
  \<open>fitTranslation\<close>, which differ from joint to joint) and writes, one by one, those
  coordinates it is allowed to change: the rotational ones for a rotation-only setter,
  the translational ones for a translation-only setter. A write of a coordinate outside
  the mobilizer's range fails with \<open>IndexOutOfRange\<close>; a write that happens invalidates
  stage Position and every higher stage.\<close>

datatype QKind = RotationalQ | TranslationalQ

record Mobilizer =
  qKinds :: "QKind list"
  fitRotation :: "Rotation \<Rightarrow> real list \<Rightarrow> real list"
  fitTranslation :: "Vec3 \<Rightarrow> real list \<Rightarrow> real list"

text \<open>Modelled from the spec: \<^verbatim>\<open>setOneQ\<close>, declared only.\<close>

definition setOneQ :: "State \<Rightarrow> MobilizedBodyIndex \<Rightarrow> int \<Rightarrow> real \<Rightarrow> State result" where
  "setOneQ s b which v =
     (if 0 \<le> which \<and> which < int (length (qOf s b))
        then Inr (s\<lparr>qOf := (qOf s)(b := (qOf s b)[nat which := v]),
                    validThrough := min (validThrough s) (stageNum Position - 1)\<rparr>)
      else Inl IndexOutOfRange)"

fun setSomeQ :: "State \<Rightarrow> MobilizedBodyIndex \<Rightarrow> (int \<times> real) list \<Rightarrow> State result" where
  "setSomeQ s b [] = Inr s"
| "setSomeQ s b ((which, v) # ws) = bindE (setOneQ s b which v) (\<lambda>s'. setSomeQ s' b ws)"

definition coordsOfKind :: "Mobilizer \<Rightarrow> QKind \<Rightarrow> real list \<Rightarrow> (int \<times> real) list" where
  "coordsOfKind m k fitted =
     map (\<lambda>i. (int i, fitted ! i)) (filter (\<lambda>i. qKinds m ! i = k) [0..<length (qKinds m)])"

text \<open>Modelled from the spec: \<^verbatim>\<open>setQToFitRotation\<close>, declared only; a rotation-only
  setter.\<close>

definition setQToFitRotation ::
  "Mobilizer \<Rightarrow> State \<Rightarrow> MobilizedBodyIndex \<Rightarrow> Rotation \<Rightarrow> State result" where
  "setQToFitRotation m s b R_FM =
     setSomeQ s b (coordsOfKind m RotationalQ (fitRotation m R_FM (qOf s b)))"

text \<open>Modelled from the spec: the translation-only setter. The header declares
  \<^verbatim>\<open>setQToFitTranslation\<close>, which may change any coordinate, and mentions an alternate
  "Only" method that leaves the rotational coordinates alone; that one is meant
  here.\<close>

definition setQToFitTranslationOnly ::
  "Mobilizer \<Rightarrow> State \<Rightarrow> MobilizedBodyIndex \<Rightarrow> Vec3 \<Rightarrow> State result" where
  "setQToFitTranslationOnly m s b p_FM =
     setSomeQ s b (coordsOfKind m TranslationalQ (fitTranslation m p_FM (qOf s b)))"

section \<open>Example inputs\<close>

text \<open>A realized state of two bodies: Ground (index 0) at the identity and at rest, and
  body 1 turned by a quarter turn about z, with its origin at (1, 2, 3), spinning about
  z and moving.\<close>

definition quarterTurnZ :: Rotation where
  "quarterTurnZ = ((0, -1, 0), (1, 0, 0), (0, 0, 1))"

definition exampleState :: State where
  "exampleState =
     \<lparr>validThrough = stageNum Acceleration,
      qOf = (\<lambda>b. if b = 1 then [0] else []),
      uOf = (\<lambda>b. if b = 1 then [0] else []),
      X_GB_cache = (\<lambda>b. if b = 1 then \<lparr>X_R = quarterTurnZ, X_p = (1, 2, 3)\<rparr>
                         else identityTransform),
      V_GB_cache = (\<lambda>b. if b = 1 then ((0, 0, 1), (0, 2, 0)) else (zero3, zero3)),
      A_GB_cache = (\<lambda>b. if b = 1 then ((0, 0, 0), (0, 4, 0)) else (zero3, zero3))\<rparr>"

text \<open>A state fresh from the finalized topology: only stage Topology is valid.\<close>

definition freshState :: State where
  "freshState = exampleState\<lparr>validThrough := stageNum Topology\<rparr>"

text \<open>Body 1 at (1, 0, 0), not turned, spinning in place about z at unit rate over a
  Ground at rest.\<close>

definition spinningState :: State where
  "spinningState =
     \<lparr>validThrough = stageNum Acceleration,
      qOf = (\<lambda>b. if b = 1 then [0] else []),
      uOf = (\<lambda>b. if b = 1 then [1] else []),
      X_GB_cache = (\<lambda>b. if b = 1 then \<lparr>X_R = ident33, X_p = (1, 0, 0)\<rparr>
                         else identityTransform),
      V_GB_cache = (\<lambda>b. if b = 1 then ((0, 0, 1), (0, 0, 0)) else (zero3, zero3)),
      A_GB_cache = (\<lambda>b. (zero3, zero3))\<rparr>"

text \<open>The chain Ground, body 1, body 2 with one coordinate and one speed per joint, as
  two calls of \<^const>\<open>addBody\<close> leave it, and finalized.\<close>

definition chainOfOne :: Tree where
  "chainOfOne =
     \<lparr>nodes = [groundNode, \<lparr>parentIndex = Some 0, numQ = 1, numU = 1\<rparr>],
      levels = [], qStart = [], uStart = [], topologyRealized = False\<rparr>"

definition chainOfTwo :: Tree where
  "chainOfTwo =
     \<lparr>nodes = [groundNode, \<lparr>parentIndex = Some 0, numQ = 1, numU = 1\<rparr>,
               \<lparr>parentIndex = Some 1, numQ = 1, numU = 1\<rparr>],
      levels = [], qStart = [], uStart = [], topologyRealized = False\<rparr>"

definition chainTree :: Tree where
  "chainTree = finalizeTopology chainOfTwo"

text \<open>A slider: one translational coordinate; its rotation fit would set the
  coordinate to 7 if it were allowed to.\<close>

definition sliderMobilizer :: Mobilizer where
  "sliderMobilizer =
     \<lparr>qKinds = [TranslationalQ],
      fitRotation = (\<lambda>R_FM q. map (\<lambda>x. 7) q),
      fitTranslation = (\<lambda>p_FM q. [fst p_FM])\<rparr>"

definition pinMobilizer :: Mobilizer where
  "pinMobilizer =
     \<lparr>qKinds = [RotationalQ],
      fitRotation = (\<lambda>R_FM q. q),
      fitTranslation = (\<lambda>p_FM q. map (\<lambda>x. 7) q)\<rparr>"

section \<open>Laws of the frame algebra\<close>

lemma mat33_cases [case_names Rows]:
  fixes m :: Mat33
  obtains a b c d e f g h i where "m = ((a, b, c), (d, e, f), (g, h, i))"
proof -
  obtain r1 r2 r3 :: Vec3 where m: "m = (r1, r2, r3)" by (cases m)
  obtain a b c where r1: "r1 = (a, b, c)" by (cases r1)
  obtain d e f where r2: "r2 = (d, e, f)" by (cases r2)
  obtain g h i where r3: "r3 = (g, h, i)" by (cases r3)
  show thesis using that m r1 r2 r3 by simp
qed

lemma mvmul_mmul: "mvmul (mmul A B) v = mvmul A (mvmul B v)"
  by (cases A rule: mat33_cases; cases B rule: mat33_cases; cases v) (simp add: algebra_simps)

lemma mvmul_ident: "mvmul ident33 v = v"
  by (cases v) (simp add: ident33_def)

lemma rot_inv_left: "isRotation m \<Longrightarrow> mvmul (transpose33 m) (mvmul m v) = v"
  by (metis isRotation_def mvmul_mmul mvmul_ident)

lemma rot_inv_right: "isRotation m \<Longrightarrow> mvmul m (mvmul (transpose33 m) v) = v"
  by (metis isRotation_def mvmul_mmul mvmul_ident)

lemma mvmul_vsub: "mvmul m (vsub a b) = vsub (mvmul m a) (mvmul m b)"
  by (cases m rule: mat33_cases; cases a; cases b) (simp add: algebra_simps)

lemma mvmul_vadd: "mvmul m (vadd a b) = vadd (mvmul m a) (mvmul m b)"
  by (cases m rule: mat33_cases; cases a; cases b) (simp add: algebra_simps)

lemma mvmul_vneg: "mvmul m (vneg a) = vneg (mvmul m a)"
  by (cases m rule: mat33_cases; cases a) (simp add: algebra_simps)

lemma mmul_assoc: "mmul (mmul A B) C = mmul A (mmul B C)"
  by (cases A rule: mat33_cases; cases B rule: mat33_cases; cases C rule: mat33_cases)
    (simp add: algebra_simps)

lemma mmul_ident_left: "mmul ident33 A = A"
  by (cases A rule: mat33_cases) (simp add: ident33_def)

lemma mmul_ident_right: "mmul A ident33 = A"
  by (cases A rule: mat33_cases) (simp add: ident33_def)

lemma transpose33_mmul: "transpose33 (mmul A B) = mmul (transpose33 B) (transpose33 A)"
  by (cases A rule: mat33_cases; cases B rule: mat33_cases) (simp add: algebra_simps)

lemma transpose33_invol: "transpose33 (transpose33 A) = A"
  by (cases A rule: mat33_cases) simp

lemma isRotation_transpose: "isRotation m \<Longrightarrow> isRotation (transpose33 m)"
  by (simp add: isRotation_def transpose33_invol)

lemma isRotation_mmul: "isRotation A \<Longrightarrow> isRotation B \<Longrightarrow> isRotation (mmul A B)"
  unfolding isRotation_def transpose33_mmul
  by (metis mmul_assoc mmul_ident_left)

lemma vadd_vneg_self: "vadd (vneg a) a = zero3"
  by (cases a) (simp add: zero3_def)

lemma sum3_squares_zero:
  fixes a b c :: real
  shows "a * a + b * b + c * c = 0 \<longleftrightarrow> a = 0 \<and> b = 0 \<and> c = 0"
proof -
  have "0 \<le> a * a + b * b" and "0 \<le> c * c"
    by simp_all
  then have "a * a + b * b + c * c = 0 \<longleftrightarrow> a * a + b * b = 0 \<and> c * c = 0"
    by (rule add_nonneg_eq_0_iff)
  then show ?thesis
    by (simp add: sum_squares_eq_zero_iff)
qed

lemma norm3_eq_0: "norm3 v = 0 \<longleftrightarrow> v = zero3"
proof (cases v)
  case (fields a b c)
  then show ?thesis
    using sum3_squares_zero [of a b c] by (simp add: norm3_def zero3_def)
qed

lemma vsub_eq_zero: "vsub a b = zero3 \<longleftrightarrow> a = b"
  by (cases a; cases b) (simp add: zero3_def)

lemma vadd_zero_right: "vadd a zero3 = a"
  by (cases a) (simp add: zero3_def)

lemma vadd_zero_left: "vadd zero3 a = a"
  by (cases a) (simp add: zero3_def)

lemma vadd_vneg_cancel: "vadd a (vadd (vneg a) g) = g"
  by (cases a; cases g) simp

lemma vadd_vneg_cancel2: "vadd (vneg a) (vadd a g) = g"
  by (cases a; cases g) simp

lemma vadd_vneg_right: "vadd a (vneg a) = zero3"
  by (cases a) (simp add: zero3_def)

lemma vneg_vneg: "vneg (vneg a) = a"
  by (cases a) simp

lemma vneg_vadd: "vneg (vadd a b) = vadd (vneg a) (vneg b)"
  by (cases a; cases b) simp

lemma vadd_assoc: "vadd (vadd a b) c = vadd a (vadd b c)"
  by (cases a; cases b; cases c) simp

lemma vadd_commute: "vadd a b = vadd b a"
  by (cases a; cases b) simp

lemma vsub_conv: "vsub a b = vadd a (vneg b)"
  by (cases a; cases b) simp

lemma mvmul_zero: "mvmul m zero3 = zero3"
  by (cases m rule: mat33_cases) (simp add: zero3_def)

lemma xform_invert_left:
  assumes "isRotation (X_R X)"
  shows "xformPoint (invert X) (xformPoint X v) = v"
  using assms
  by (simp add: xformPoint_def invert_def mvmul_vadd vadd_vneg_cancel2 rot_inv_left)

lemma xform_invert_right:
  assumes "isRotation (X_R X)"
  shows "xformPoint X (xformPoint (invert X) v) = v"
  using assms
  by (simp add: xformPoint_def invert_def mvmul_vadd mvmul_vneg vadd_vneg_cancel rot_inv_right)

lemma compose_invert_right:
  assumes "isRotation (X_R X)"
  shows "compose X (invert X) = identityTransform"
  using assms
  by (simp add: compose_def invert_def identityTransform_def mvmul_vneg rot_inv_right
      vadd_vneg_right isRotation_def)

lemma compose_invert_left:
  assumes "isRotation (X_R X)"
  shows "compose (invert X) X = identityTransform"
  using assms
  by (simp add: compose_def invert_def identityTransform_def vadd_vneg_self isRotation_def)

lemma invert_invert:
  assumes "isRotation (X_R X)"
  shows "invert (invert X) = X"
  using assms
  by (simp add: invert_def transpose33_invol mvmul_vneg vneg_vneg rot_inv_right)

lemma invert_compose:
  assumes "isRotation (X_R X)"
  shows "invert (compose X Y) = compose (invert Y) (invert X)"
  using assms
  by (simp add: invert_def compose_def transpose33_mmul mvmul_mmul mvmul_vadd mvmul_vneg
      rot_inv_left vneg_vadd vadd_commute)

lemma compose_identity_left: "compose identityTransform X = X"
  by (simp add: compose_def identityTransform_def mmul_ident_left mvmul_ident vadd_zero_left)

lemma X_R_compose: "X_R (compose X Y) = mmul (X_R X) (X_R Y)"
  by (simp add: compose_def)

lemma X_R_invert: "X_R (invert X) = transpose33 (X_R X)"
  by (simp add: invert_def)

lemma isValid_Position_of_Velocity: "isValid s Velocity \<Longrightarrow> isValid s Position"
  by (simp add: isValid_def)

lemma isValid_Velocity_of_Acceleration: "isValid s Acceleration \<Longrightarrow> isValid s Velocity"
  by (simp add: isValid_def)

lemma getBodyTransform_valid: "isValid s Position \<Longrightarrow> getBodyTransform s b = Inr (X_GB_cache s b)"
  by (simp add: getBodyTransform_def readCache_def)

lemma getBodyVelocity_valid: "isValid s Velocity \<Longrightarrow> getBodyVelocity s b = Inr (V_GB_cache s b)"
  by (simp add: getBodyVelocity_def readCache_def)

lemma getBodyAcceleration_valid:
  "isValid s Acceleration \<Longrightarrow> getBodyAcceleration s b = Inr (A_GB_cache s b)"
  by (simp add: getBodyAcceleration_def readCache_def)

lemma getBodyTransform_Inr:
  "getBodyTransform s b = Inr X \<longleftrightarrow> isValid s Position \<and> X = X_GB_cache s b"
  by (auto simp add: getBodyTransform_def readCache_def)

lemma getBodyVelocity_Inr:
  "getBodyVelocity s b = Inr V \<longleftrightarrow> isValid s Velocity \<and> V = V_GB_cache s b"
  by (auto simp add: getBodyVelocity_def readCache_def)

lemma getBodyAcceleration_Inr:
  "getBodyAcceleration s b = Inr A \<longleftrightarrow> isValid s Acceleration \<and> A = A_GB_cache s b"
  by (auto simp add: getBodyAcceleration_def readCache_def)

lemma bindE_Inr [simp]: "bindE (Inr x) f = f x"
  by (simp add: bindE_def)

lemma bindE_Inl [simp]: "bindE (Inl e) f = Inl e"
  by (simp add: bindE_def)

lemmas body_access_defs =
  getBodyRotation_def getBodyOriginLocation_def getBodyAngularVelocity_def
  getBodyOriginVelocity_def getBodyAngularAcceleration_def getBodyOriginAcceleration_def

lemma isRotation_quarterTurnZ: "isRotation quarterTurnZ"
  by (simp add: isRotation_def quarterTurnZ_def ident33_def)

lemma isRotation_ident33: "isRotation ident33"
  by (simp add: isRotation_def ident33_def)

section \<open>Reading the cache in a realized state\<close>

lemma vsub_self: "vsub a a = zero3"
  by (cases a) (simp add: zero3_def)

lemma norm3_zero3: "norm3 zero3 = 0"
  by (simp add: norm3_def zero3_def)

lemma vneg_vsub: "vneg (vsub a b) = vsub b a"
  by (cases a; cases b) simp

lemma mirror_shift_identity:
  "vsub (vsub vB vA) (cross wA (vsub pB pA)) =
   vadd (vneg (vsub (vsub vA vB) (cross wB (vsub pA pB)))) (cross (vsub wB wA) (vsub pB pA))"
  by (cases vA; cases vB; cases wA; cases wB; cases pA; cases pB) (simp add: algebra_simps)

lemma findStationLocationInGround_valid:
  "isValid s Position \<Longrightarrow>
   findStationLocationInGround s b p = Inr (xformPoint (X_GB_cache s b) p)"
  by (simp add: findStationLocationInGround_def getBodyTransform_valid)

lemma findStationVelocityInGround_valid:
  "isValid s Velocity \<Longrightarrow>
   findStationVelocityInGround s b p =
     Inr (vadd (snd (V_GB_cache s b))
            (cross (fst (V_GB_cache s b)) (mvmul (X_R (X_GB_cache s b)) p)))"
  by (simp add: findStationVelocityInGround_def expressVectorInGroundFrame_def
      body_access_defs getBodyVelocity_valid
      getBodyTransform_valid [OF isValid_Position_of_Velocity])

lemma findStationAccelerationInGround_valid:
  assumes "isValid s Acceleration"
  shows "findStationAccelerationInGround s b p =
     Inr (vadd (vadd (snd (A_GB_cache s b))
                  (cross (fst (A_GB_cache s b)) (mvmul (X_R (X_GB_cache s b)) p)))
            (cross (fst (V_GB_cache s b))
               (cross (fst (V_GB_cache s b)) (mvmul (X_R (X_GB_cache s b)) p))))"
proof -
  have vel: "isValid s Velocity" and pos: "isValid s Position"
    using assms by (simp_all add: isValid_def)
  show ?thesis
    by (simp add: findStationAccelerationInGround_def expressVectorInGroundFrame_def
        body_access_defs getBodyVelocity_valid [OF vel] getBodyTransform_valid [OF pos]
        getBodyAcceleration_valid [OF assms])
qed

lemma findStationLocationAndVelocityInGround_valid:
  assumes "isValid s Velocity"
  shows "findStationLocationAndVelocityInGround s b p =
     Inr (xformPoint (X_GB_cache s b) p,
          vadd (snd (V_GB_cache s b))
            (cross (fst (V_GB_cache s b)) (mvmul (X_R (X_GB_cache s b)) p)))"
  by (simp add: findStationLocationAndVelocityInGround_def expressVectorInGroundFrame_def
      body_access_defs getBodyVelocity_valid [OF assms] xformPoint_def Let_def
      getBodyTransform_valid [OF isValid_Position_of_Velocity [OF assms]])

lemma findStationLocationVelocityAndAccelerationInGround_valid:
  assumes "isValid s Acceleration"
  shows "findStationLocationVelocityAndAccelerationInGround s b p =
     Inr (xformPoint (X_GB_cache s b) p,
          vadd (snd (V_GB_cache s b))
            (cross (fst (V_GB_cache s b)) (mvmul (X_R (X_GB_cache s b)) p)),
          vadd (vadd (snd (A_GB_cache s b))
                  (cross (fst (A_GB_cache s b)) (mvmul (X_R (X_GB_cache s b)) p)))
            (cross (fst (V_GB_cache s b))
               (cross (fst (V_GB_cache s b)) (mvmul (X_R (X_GB_cache s b)) p))))"
proof -
  have vel: "isValid s Velocity" and pos: "isValid s Position"
    using assms by (simp_all add: isValid_def)
  show ?thesis
    by (simp add: findStationLocationVelocityAndAccelerationInGround_def
        body_access_defs getBodyVelocity_valid [OF vel] getBodyTransform_valid [OF pos]
        getBodyAcceleration_valid [OF assms] xformPoint_def Let_def)
qed

section \<open>Laws of the stages and of the tree\<close>

lemma stageNum_inject: "stageNum g = stageNum h \<longleftrightarrow> g = h"
  by (cases g; cases h) simp_all

lemma realize_below_Position:
  assumes "validThrough s < stageNum Position" and "g \<noteq> Position"
    and "realize calc s g = Inr s'"
  shows "validThrough s' < stageNum Position"
proof (cases "stageNum g \<le> validThrough s")
  case True
  then show ?thesis using assms by (simp add: realize_def)
next
  case False
  have "stageNum g \<noteq> stageNum Position"
    using assms(2) by (simp only: stageNum_inject) simp
  then show ?thesis
    using False assms(1,3) by (auto simp add: realize_def split: if_splits)
qed

lemma realizeEach_below_Position:
  "validThrough s < stageNum Position \<Longrightarrow> Position \<notin> set gs \<Longrightarrow>
   validThrough (realizeEach calc s gs) < stageNum Position"
proof (induction gs arbitrary: s)
  case Nil
  then show ?case by simp
next
  case (Cons g gs)
  show ?case
  proof (cases "realize calc s g")
    case (Inl e)
    then show ?thesis using Cons by simp
  next
    case (Inr s')
    have "validThrough s' < stageNum Position"
      using realize_below_Position [OF Cons.prems(1) _ Inr] Cons.prems(2) by auto
    then show ?thesis using Inr Cons by simp
  qed
qed

lemma computeLevels_snoc: "computeLevels (ns @ [n]) = levelStep (computeLevels ns) n"
  by (simp add: computeLevels_def)

lemma length_computeLevels: "length (computeLevels ns) = length ns"
  by (induction ns rule: rev_induct) (simp_all add: computeLevels_snoc levelStep_def computeLevels_def)

lemma parentsBelow_butlast: "parentsBelow (ns @ [n]) \<Longrightarrow> parentsBelow ns"
  unfolding parentsBelow_def
proof (intro allI impI)
  fix b parent
  assume all: "\<forall>b<length (ns @ [n]). \<forall>parent. parentIndex ((ns @ [n]) ! b) = Some parent \<longrightarrow> parent < b"
    and b: "b < length ns" and p: "parentIndex (ns ! b) = Some parent"
  have "parentIndex ((ns @ [n]) ! b) = Some parent"
    using b p by (simp add: nth_append)
  then show "parent < b" using all b by simp
qed

lemma computeLevels_nth:
  "parentsBelow ns \<Longrightarrow> b < length ns \<Longrightarrow>
   computeLevels ns ! b =
     (case parentIndex (ns ! b) of None \<Rightarrow> 0 | Some parent \<Rightarrow> computeLevels ns ! parent + 1)"
proof (induction ns rule: rev_induct)
  case Nil
  then show ?case by simp
next
  case (snoc n ns)
  have below: "parentsBelow ns"
    by (rule parentsBelow_butlast [OF snoc.prems(1)])
  have len: "length (computeLevels ns) = length ns"
    by (rule length_computeLevels)
  have parent_lt: "parent < b" if "parentIndex ((ns @ [n]) ! b) = Some parent" for parent
    using snoc.prems that by (simp add: parentsBelow_def)
  show ?case
  proof (cases "b < length ns")
    case True
    have old: "computeLevels (ns @ [n]) ! b = computeLevels ns ! b"
      using True len by (simp add: computeLevels_snoc levelStep_def nth_append)
    have nodeb: "(ns @ [n]) ! b = ns ! b"
      using True by (simp add: nth_append)
    show ?thesis
    proof (cases "parentIndex (ns ! b)")
      case None
      then show ?thesis
        using old nodeb snoc.IH [OF below True] by simp
    next
      case (Some parent)
      have "parent < b" using parent_lt Some nodeb by simp
      then have "computeLevels (ns @ [n]) ! parent = computeLevels ns ! parent"
        using True len by (simp add: computeLevels_snoc levelStep_def nth_append)
      then show ?thesis
        using old nodeb Some snoc.IH [OF below True] by simp
    qed
  next
    case False
    then have b: "b = length ns" using snoc.prems(2) by simp
    have nodeb: "(ns @ [n]) ! b = n"
      using b by simp
    have new: "computeLevels (ns @ [n]) ! b =
        (case parentIndex n of None \<Rightarrow> 0 | Some parent \<Rightarrow> computeLevels ns ! parent + 1)"
      using b len by (simp add: computeLevels_snoc levelStep_def nth_append)
    show ?thesis
    proof (cases "parentIndex n")
      case None
      then show ?thesis using new nodeb by simp
    next
      case (Some parent)
      have "parent < length ns" using parent_lt [of parent] Some nodeb b by simp
      then have "computeLevels (ns @ [n]) ! parent = computeLevels ns ! parent"
        using len by (simp add: computeLevels_snoc levelStep_def nth_append)
      then show ?thesis using new nodeb Some by simp
    qed
  qed
qed

lemma wfNodes_new: "wfNodes (nodes newTree)"
  by (simp add: wfNodes_def parentsBelow_def newTree_def groundNode_def)

lemma wfNodes_addBody:
  assumes "wfNodes (nodes t)" and "addBody t parent nq nu = Inr (b, t')"
  shows "wfNodes (nodes t')"
proof -
  have p: "parent < length (nodes t)"
    using assms(2) by (simp add: addBody_def split: if_splits)
  have t': "nodes t' = nodes t @ [\<lparr>parentIndex = Some parent, numQ = nq, numU = nu\<rparr>]"
    using assms(2) by (auto simp add: addBody_def split: if_splits)
  have ne: "nodes t \<noteq> []" using assms(1) by (simp add: wfNodes_def)
  have "parentsBelow (nodes t')"
    unfolding parentsBelow_def t'
    using assms(1) p by (auto simp add: wfNodes_def parentsBelow_def nth_append)
  moreover have "\<forall>b < length (nodes t'). 0 < b \<longrightarrow> parentIndex (nodes t' ! b) \<noteq> None"
    unfolding t' using assms(1) by (auto simp add: wfNodes_def nth_append)
  moreover have "parentIndex (nodes t' ! 0) = None"
    unfolding t' using assms(1) ne by (simp add: wfNodes_def nth_append)
  ultimately show ?thesis
    using t' by (simp add: wfNodes_def)
qed

lemma constructed_invariant:
  "constructed t \<Longrightarrow>
   wfNodes (nodes t) \<and> (topologyRealized t \<longrightarrow> levels t = computeLevels (nodes t))"
proof (induction rule: constructed.induct)
  case new
  then show ?case by (simp add: wfNodes_new) (simp add: newTree_def)
next
  case (add t parent nq nu b t')
  have "\<not> topologyRealized t'"
    using add.hyps(2) by (auto simp add: addBody_def split: if_splits)
  then show ?case
    using wfNodes_addBody [OF _ add.hyps(2)] add.IH by simp
next
  case (finalize t)
  then show ?case by (simp add: finalizeTopology_def)
qed

lemma coordsOfKind_none:
  assumes "\<forall>k \<in> set (qKinds m). k \<noteq> kind"
  shows "coordsOfKind m kind fitted = []"
proof -
  have "filter (\<lambda>i. qKinds m ! i = kind) [0..<length (qKinds m)] = []"
    using assms by (auto simp add: filter_empty_conv)
  then show ?thesis by (simp add: coordsOfKind_def)
qed

section \<open>Station kinematics\<close>

text \<open>Claim C5. In a state where the velocity and the pose of body B can be read, the
  ground velocity that \<^const>\<open>findStationVelocityInGround\<close> returns for a station \<open>p\<close> fixed
  on B is the origin's linear velocity plus the cross product of the angular velocity
  with the station vector re-expressed in Ground: \<open>v_GB + w_GB \<times> (R_GB p)\<close>.\<close>
theorem findStationVelocityInGround_rigid_shift:
  assumes "getBodyVelocity s b = Inr (w_GB, v_GB)" and "getBodyTransform s b = Inr X_GB"
  shows "findStationVelocityInGround s b p = Inr (vadd v_GB (cross w_GB (mvmul (X_R X_GB) p)))"
  using assms
  by (simp add: findStationVelocityInGround_def expressVectorInGroundFrame_def body_access_defs)

theorem findStationVelocityInGround_rigid_shift_witness:
  "getBodyVelocity exampleState 1 = Inr ((0, 0, 1), (0, 2, 0)) \<and>
   getBodyTransform exampleState 1 = Inr \<lparr>X_R = quarterTurnZ, X_p = (1, 2, 3)\<rparr> \<and>
   findStationVelocityInGround exampleState 1 (1, 0, 0) = Inr (-1, 2, 0)"
  using findStationVelocityInGround_rigid_shift
    [of exampleState 1 "(0, 0, 1)" "(0, 2, 0)" "\<lparr>X_R = quarterTurnZ, X_p = (1, 2, 3)\<rparr>" "(1, 0, 0)"]
  by (simp add: getBodyVelocity_def getBodyTransform_def readCache_def isValid_def
      exampleState_def quarterTurnZ_def)

text \<open>Claim C9. In a state realized through Acceleration, the fused operators
  \<^const>\<open>findStationLocationAndVelocityInGround\<close> and
  \<^const>\<open>findStationLocationVelocityAndAccelerationInGround\<close> return exactly the location,
  velocity and acceleration that the three separate operators return, and all five
  calls succeed.\<close>
theorem fused_station_operators_agree:
  assumes "isValid s Acceleration"
  shows "\<exists>l v a.
     findStationLocationInGround s b p = Inr l \<and>
     findStationVelocityInGround s b p = Inr v \<and>
     findStationAccelerationInGround s b p = Inr a \<and>
     findStationLocationAndVelocityInGround s b p = Inr (l, v) \<and>
     findStationLocationVelocityAndAccelerationInGround s b p = Inr (l, v, a)"
proof -
  have vel: "isValid s Velocity" and pos: "isValid s Position"
    using assms by (simp_all add: isValid_def)
  show ?thesis
    by (simp add: findStationLocationInGround_def findStationVelocityInGround_def
        findStationAccelerationInGround_def findStationLocationAndVelocityInGround_def
        findStationLocationVelocityAndAccelerationInGround_def
        expressVectorInGroundFrame_def body_access_defs xformPoint_def Let_def
        getBodyTransform_valid [OF pos] getBodyVelocity_valid [OF vel]
        getBodyAcceleration_valid [OF assms])
      (metis prod_cases3)
qed

theorem fused_station_operators_agree_witness:
  "isValid exampleState Acceleration \<and>
   (\<exists>l v a.
     findStationLocationInGround exampleState 1 (1, 0, 0) = Inr l \<and>
     findStationVelocityInGround exampleState 1 (1, 0, 0) = Inr v \<and>
     findStationAccelerationInGround exampleState 1 (1, 0, 0) = Inr a \<and>
     findStationLocationAndVelocityInGround exampleState 1 (1, 0, 0) = Inr (l, v) \<and>
     findStationLocationVelocityAndAccelerationInGround exampleState 1 (1, 0, 0) = Inr (l, v, a))"
  using fused_station_operators_agree [of exampleState 1 "(1, 0, 0)"]
  by (simp add: isValid_def exampleState_def)

text \<open>Claim C10. For a body whose cached pose holds a rotation,
  \<^const>\<open>findStationAtGroundPoint\<close> undoes \<^const>\<open>findStationLocationInGround\<close> and the
  other way round: a station taken to Ground and back is the station, and a ground
  point taken to the body and back is the ground point.\<close>
theorem station_ground_round_trip:
  assumes "getBodyTransform s b = Inr X_GB" and "isRotation (X_R X_GB)"
  shows "bindE (findStationLocationInGround s b p) (findStationAtGroundPoint s b) = Inr p \<and>
         bindE (findStationAtGroundPoint s b g) (findStationLocationInGround s b) = Inr g"
  using assms
  by (simp add: findStationLocationInGround_def findStationAtGroundPoint_def
      xform_invert_left xform_invert_right)

theorem station_ground_round_trip_witness:
  "getBodyTransform exampleState 1 = Inr \<lparr>X_R = quarterTurnZ, X_p = (1, 2, 3)\<rparr> \<and>
   isRotation quarterTurnZ \<and>
   findStationLocationInGround exampleState 1 (1, 0, 0) = Inr (1, 3, 3) \<and>
   findStationAtGroundPoint exampleState 1 (1, 3, 3) = Inr (1, 0, 0) \<and>
   bindE (findStationLocationInGround exampleState 1 (1, 0, 0))
     (findStationAtGroundPoint exampleState 1) = Inr (1, 0, 0) \<and>
   bindE (findStationAtGroundPoint exampleState 1 (1, 3, 3))
     (findStationLocationInGround exampleState 1) = Inr (1, 3, 3)"
proof -
  have X: "getBodyTransform exampleState 1 = Inr \<lparr>X_R = quarterTurnZ, X_p = (1, 2, 3)\<rparr>"
    by (simp add: getBodyTransform_def readCache_def isValid_def exampleState_def)
  have rot: "isRotation (X_R \<lparr>X_R = quarterTurnZ, X_p = (1, 2, 3)\<rparr>)"
    by (simp add: isRotation_def quarterTurnZ_def ident33_def)
  have l: "findStationLocationInGround exampleState 1 (1, 0, 0) = Inr (1, 3, 3)"
    by (simp add: findStationLocationInGround_def X xformPoint_def quarterTurnZ_def
        del: One_nat_def)
  have g: "findStationAtGroundPoint exampleState 1 (1, 3, 3) = Inr (1, 0, 0)"
    by (simp add: findStationAtGroundPoint_def X xformPoint_def invert_def quarterTurnZ_def
        del: One_nat_def)
  show ?thesis
    using station_ground_round_trip [OF X rot, of "(1, 0, 0)" "(1, 3, 3)"] X rot l g
    by simp
qed

section \<open>Relative pose and velocity of two bodies\<close>

lemma relative_origin:
  "vadd (vneg (mvmul m pA)) (mvmul m pB) = mvmul m (vsub pB pA)"
  by (cases m rule: mat33_cases; cases pA; cases pB) (simp add: algebra_simps)

text \<open>Claim C4. For two bodies A and B whose cached poses can be read and hold
  rotations, \<^const>\<open>findBodyTransformInAnotherBody\<close> returns the relative transform
  \<open>X_AB = ~X_GA * X_GB\<close>, whose rotation is \<open>~R_GA * R_GB\<close> and whose origin is B's
  origin measured from A's origin and expressed in A, \<open>~R_GA * (p_GB - p_GA)\<close>; the
  mirrored call returns \<open>X_BA = ~X_GB * X_GA\<close>. The two are inverse to each other:
  \<open>X_BA\<close> is the inverse of \<open>X_AB\<close>, composing \<open>X_AB\<close> with its inverse or with \<open>X_BA\<close>,
  on either side, gives the identity, and composing that with \<open>X_AB\<close> gives \<open>X_AB\<close>
  back.\<close>

theorem relative_transform_round_trip:
  assumes "getBodyTransform s a = Inr X_GA" and "getBodyTransform s b = Inr X_GB"
    and "isRotation (X_R X_GA)" and "isRotation (X_R X_GB)"
  shows "\<exists>X_AB X_BA.
     findBodyTransformInAnotherBody s b a = Inr X_AB \<and>
     findBodyTransformInAnotherBody s a b = Inr X_BA \<and>
     X_AB = compose (invert X_GA) X_GB \<and>
     X_BA = compose (invert X_GB) X_GA \<and>
     X_R X_AB = mmul (transpose33 (X_R X_GA)) (X_R X_GB) \<and>
     X_p X_AB = mvmul (transpose33 (X_R X_GA)) (vsub (X_p X_GB) (X_p X_GA)) \<and>
     X_R X_BA = mmul (transpose33 (X_R X_GB)) (X_R X_GA) \<and>
     X_p X_BA = mvmul (transpose33 (X_R X_GB)) (vsub (X_p X_GA) (X_p X_GB)) \<and>
     invert X_AB = X_BA \<and>
     compose X_AB (invert X_AB) = identityTransform \<and>
     compose X_AB X_BA = identityTransform \<and>
     compose X_BA X_AB = identityTransform \<and>
     compose (compose X_AB X_BA) X_AB = X_AB"
proof -
  define X_AB where "X_AB = compose (invert X_GA) X_GB"
  define X_BA where "X_BA = compose (invert X_GB) X_GA"
  have rotA': "isRotation (X_R (invert X_GA))" and rotB': "isRotation (X_R (invert X_GB))"
    using assms(3,4) by (simp_all add: X_R_invert isRotation_transpose)
  have rotAB: "isRotation (X_R X_AB)"
    using rotA' assms(4) by (simp add: X_AB_def X_R_compose isRotation_mmul)
  have ab: "findBodyTransformInAnotherBody s b a = Inr X_AB"
    using assms(1,2) by (simp add: findBodyTransformInAnotherBody_def X_AB_def)
  have ba: "findBodyTransformInAnotherBody s a b = Inr X_BA"
    using assms(1,2) by (simp add: findBodyTransformInAnotherBody_def X_BA_def)
  have RAB: "X_R X_AB = mmul (transpose33 (X_R X_GA)) (X_R X_GB)"
    and pAB: "X_p X_AB = mvmul (transpose33 (X_R X_GA)) (vsub (X_p X_GB) (X_p X_GA))"
    by (simp_all add: X_AB_def compose_def invert_def relative_origin)
  have RBA: "X_R X_BA = mmul (transpose33 (X_R X_GB)) (X_R X_GA)"
    and pBA: "X_p X_BA = mvmul (transpose33 (X_R X_GB)) (vsub (X_p X_GA) (X_p X_GB))"
    by (simp_all add: X_BA_def compose_def invert_def relative_origin)
  have inv: "invert X_AB = X_BA"
    unfolding X_AB_def X_BA_def
    by (simp add: invert_compose [OF rotA'] invert_invert [OF assms(3)])
  have right: "compose X_AB (invert X_AB) = identityTransform"
    by (rule compose_invert_right [OF rotAB])
  have left: "compose (invert X_AB) X_AB = identityTransform"
    by (rule compose_invert_left [OF rotAB])
  have round: "compose (compose X_AB X_BA) X_AB = X_AB"
    using inv right by (simp add: compose_identity_left)
  show ?thesis
    using ab ba X_AB_def X_BA_def RAB pAB RBA pBA inv right left round by auto
qed

theorem relative_transform_round_trip_witness:
  "getBodyTransform exampleState 0 = Inr identityTransform \<and>
   getBodyTransform exampleState 1 = Inr \<lparr>X_R = quarterTurnZ, X_p = (1, 2, 3)\<rparr> \<and>
   isRotation (X_R identityTransform) \<and>
   isRotation (X_R \<lparr>X_R = quarterTurnZ, X_p = (1, 2, 3)\<rparr>) \<and>
   findBodyTransformInAnotherBody exampleState 1 0 =
     Inr \<lparr>X_R = quarterTurnZ, X_p = (1, 2, 3)\<rparr> \<and>
   findBodyTransformInAnotherBody exampleState 0 1 =
     Inr \<lparr>X_R = ((0, 1, 0), (-1, 0, 0), (0, 0, 1)), X_p = (-2, 1, -3)\<rparr> \<and>
   invert \<lparr>X_R = quarterTurnZ, X_p = (1, 2, 3)\<rparr> =
     \<lparr>X_R = ((0, 1, 0), (-1, 0, 0), (0, 0, 1)), X_p = (-2, 1, -3)\<rparr> \<and>
   compose \<lparr>X_R = quarterTurnZ, X_p = (1, 2, 3)\<rparr>
     \<lparr>X_R = ((0, 1, 0), (-1, 0, 0), (0, 0, 1)), X_p = (-2, 1, -3)\<rparr> = identityTransform \<and>
   compose \<lparr>X_R = ((0, 1, 0), (-1, 0, 0), (0, 0, 1)), X_p = (-2, 1, -3)\<rparr>
     \<lparr>X_R = quarterTurnZ, X_p = (1, 2, 3)\<rparr> = identityTransform"
proof -
  let ?X1 = "\<lparr>X_R = quarterTurnZ, X_p = (1, 2, 3)\<rparr>"
  let ?Y1 = "\<lparr>X_R = ((0, 1, 0), (-1, 0, 0), (0, 0, 1)), X_p = (-2, 1, -3)\<rparr>"
  have X0: "getBodyTransform exampleState 0 = Inr identityTransform"
    by (simp add: getBodyTransform_def readCache_def isValid_def exampleState_def)
  have X1: "getBodyTransform exampleState 1 = Inr ?X1"
    by (simp add: getBodyTransform_def readCache_def isValid_def exampleState_def)
  have r0: "isRotation (X_R identityTransform)"
    by (simp add: identityTransform_def isRotation_ident33)
  have r1: "isRotation (X_R ?X1)"
    by (simp add: isRotation_quarterTurnZ)
  have c1: "compose (invert identityTransform) ?X1 = ?X1"
    by (simp add: compose_def invert_def identityTransform_def ident33_def zero3_def
        quarterTurnZ_def)
  have c2: "compose (invert ?X1) identityTransform = ?Y1"
    by (simp add: compose_def invert_def identityTransform_def ident33_def zero3_def
        quarterTurnZ_def)
  obtain X_AB X_BA where
    ab: "findBodyTransformInAnotherBody exampleState 1 0 = Inr X_AB" and
    ba: "findBodyTransformInAnotherBody exampleState 0 1 = Inr X_BA" and
    vab: "X_AB = compose (invert identityTransform) ?X1" and
    vba: "X_BA = compose (invert ?X1) identityTransform" and
    inv: "invert X_AB = X_BA" and
    right: "compose X_AB X_BA = identityTransform" and
    left: "compose X_BA X_AB = identityTransform"
    using relative_transform_round_trip [OF X0 X1 r0 r1] by blast
  show ?thesis
    using X0 X1 r0 r1 ab ba inv right left unfolding vab vba c1 c2
    by simp
qed

text \<open>Claim C3 as worded does not hold. For body 1 spinning in place at (1, 0, 0) over
  a Ground at rest, \<^const>\<open>findBodyVelocityInAnotherBody\<close> of body 1 in Ground has linear part
  zero, while the mirrored call, negated and re-expressed, has linear part (0, -1, 0):
  the two calls measure the velocities of two different points, the origins of B and
  of A.\<close>

theorem mirrored_velocity_counterexample:
  "isValid spinningState Velocity \<and>
   isRotation (X_R (X_GB_cache spinningState 0)) \<and>
   isRotation (X_R (X_GB_cache spinningState 1)) \<and>
   findBodyVelocityInAnotherBody spinningState 1 0 = Inr ((0, 0, 1), (0, 0, 0)) \<and>
   specMirroredBodyVelocity spinningState 1 0 = Inr ((0, 0, 1), (0, -1, 0)) \<and>
   findBodyVelocityInAnotherBody spinningState 1 0 \<noteq> specMirroredBodyVelocity spinningState 1 0"
  by (simp add: specMirroredBodyVelocity_def findBodyVelocityInAnotherBody_def
      expressVectorInAnotherBodyFrame_def expressVectorInGroundFrame_def
      expressGroundVectorInBodyFrame_def getBodyRotation_def
      getBodyVelocity_def getBodyTransform_def readCache_def isValid_def
      spinningState_def identityTransform_def ident33_def zero3_def isRotation_def
      rexpressSpatial_def Let_def)

text \<open>Claim C3, amended. For two bodies A and B whose cached velocities and poses can be
  read and whose poses hold rotations, \<^const>\<open>findBodyVelocityInAnotherBody\<close> of B in A and
  the mirrored call of A in B, negated and re-expressed from B into A, have the same
  angular part; the linear part of the former is the linear part of the latter plus
  the transport term \<open>R_AG ((w_GB - w_GA) \<times> (p_GB - p_GA))\<close>, the shift from A's origin
  to B's origin.\<close>

theorem mirrored_velocity_with_shift:
  assumes "getBodyVelocity s b = Inr (w_GB, v_GB)" and "getBodyVelocity s a = Inr (w_GA, v_GA)"
    and "getBodyTransform s b = Inr X_GB" and "getBodyTransform s a = Inr X_GA"
    and "isRotation (X_R X_GB)" and "isRotation (X_R X_GA)"
  shows "\<exists>w_AB v_AB w_m v_m.
     findBodyVelocityInAnotherBody s b a = Inr (w_AB, v_AB) \<and>
     specMirroredBodyVelocity s b a = Inr (w_m, v_m) \<and>
     w_AB = w_m \<and>
     v_AB = vadd v_m (mvmul (transpose33 (X_R X_GA))
                        (cross (vsub w_GB w_GA) (vsub (X_p X_GB) (X_p X_GA))))"
proof -
  let ?RA = "transpose33 (X_R X_GA)"
  let ?p = "vsub (X_p X_GB) (X_p X_GA)"
  let ?vBA = "vsub (vsub v_GA v_GB) (cross w_GB (vsub (X_p X_GA) (X_p X_GB)))"
  have ab: "findBodyVelocityInAnotherBody s b a =
      Inr (mvmul ?RA (vsub w_GB w_GA), mvmul ?RA (vsub (vsub v_GB v_GA) (cross w_GA ?p)))"
    using assms(1-4)
    by (simp add: findBodyVelocityInAnotherBody_def rexpressSpatial_def Let_def)
  have ba: "findBodyVelocityInAnotherBody s a b =
      Inr (mvmul (transpose33 (X_R X_GB)) (vsub w_GA w_GB),
           mvmul (transpose33 (X_R X_GB)) ?vBA)"
    using assms(1-4)
    by (simp add: findBodyVelocityInAnotherBody_def rexpressSpatial_def Let_def)
  have reexp: "expressVectorInAnotherBodyFrame s b (vneg (mvmul (transpose33 (X_R X_GB)) x)) a =
      Inr (mvmul ?RA (vneg x))" for x
    using assms(3,4,5)
    by (simp add: expressVectorInAnotherBodyFrame_def expressVectorInGroundFrame_def
        expressGroundVectorInBodyFrame_def getBodyRotation_def mvmul_vneg rot_inv_right)
  have mirrored: "specMirroredBodyVelocity s b a =
      Inr (mvmul ?RA (vneg (vsub w_GA w_GB)), mvmul ?RA (vneg ?vBA))"
    by (simp add: specMirroredBodyVelocity_def ba reexp)
  have ang: "mvmul ?RA (vsub w_GB w_GA) = mvmul ?RA (vneg (vsub w_GA w_GB))"
    by (simp add: vneg_vsub)
  have lin: "mvmul ?RA (vsub (vsub v_GB v_GA) (cross w_GA ?p)) =
      vadd (mvmul ?RA (vneg ?vBA)) (mvmul ?RA (cross (vsub w_GB w_GA) ?p))"
    by (simp only: mvmul_vadd [symmetric] mirror_shift_identity [symmetric])
  show ?thesis
    using ab mirrored ang lin by simp
qed

theorem mirrored_velocity_with_shift_witness:
  "getBodyVelocity exampleState 1 = Inr ((0, 0, 1), (0, 2, 0)) \<and>
   getBodyVelocity exampleState 0 = Inr (zero3, zero3) \<and>
   getBodyTransform exampleState 1 = Inr \<lparr>X_R = quarterTurnZ, X_p = (1, 2, 3)\<rparr> \<and>
   getBodyTransform exampleState 0 = Inr identityTransform \<and>
   isRotation (X_R \<lparr>X_R = quarterTurnZ, X_p = (1, 2, 3)\<rparr>) \<and>
   isRotation (X_R identityTransform) \<and>
   (\<exists>w_AB v_AB w_m v_m.
     findBodyVelocityInAnotherBody exampleState 1 0 = Inr (w_AB, v_AB) \<and>
     specMirroredBodyVelocity exampleState 1 0 = Inr (w_m, v_m) \<and>
     w_AB = w_m \<and>
     v_AB = vadd v_m (mvmul (transpose33 (X_R identityTransform))
                        (cross (vsub (0, 0, 1) zero3)
                           (vsub (X_p \<lparr>X_R = quarterTurnZ, X_p = (1, 2, 3)\<rparr>)
                              (X_p identityTransform)))))"
proof -
  have V1: "getBodyVelocity exampleState 1 = Inr ((0, 0, 1), (0, 2, 0))"
    by (simp add: getBodyVelocity_def readCache_def isValid_def exampleState_def)
  have V0: "getBodyVelocity exampleState 0 = Inr (zero3, zero3)"
    by (simp add: getBodyVelocity_def readCache_def isValid_def exampleState_def)
  have X1: "getBodyTransform exampleState 1 = Inr \<lparr>X_R = quarterTurnZ, X_p = (1, 2, 3)\<rparr>"
    by (simp add: getBodyTransform_def readCache_def isValid_def exampleState_def)
  have X0: "getBodyTransform exampleState 0 = Inr identityTransform"
    by (simp add: getBodyTransform_def readCache_def isValid_def exampleState_def)
  have r1: "isRotation (X_R \<lparr>X_R = quarterTurnZ, X_p = (1, 2, 3)\<rparr>)"
    by (simp add: isRotation_quarterTurnZ)
  have r0: "isRotation (X_R identityTransform)"
    by (simp add: identityTransform_def isRotation_ident33)
  show ?thesis
    using mirrored_velocity_with_shift [OF V1 V0 X1 X0 r1 r0] V1 V0 X1 X0 r1 r0 by blast
qed

section \<open>Distance between stations\<close>

text \<open>Claim C2. In a state realized through Acceleration, for stations on two distinct
  bodies that are at the same place in Ground,
  \<^const>\<open>calcStationToStationDistanceTimeDerivative\<close> returns the magnitude of the relative
  velocity of the stations, and \<^const>\<open>calcStationToStationDistance2ndTimeDerivative\<close>
  returns the magnitude of their relative acceleration when the relative velocity is
  zero, and otherwise the component of the relative acceleration along the relative
  velocity. Both calls return; none raises.\<close>

theorem coincident_station_distance_rates:
  assumes "isValid s Acceleration" and "b \<noteq> a"
    and "findStationLocationInGround s b pB = findStationLocationInGround s a pA"
  shows "\<exists>vB vA aB aA.
     findStationVelocityInGround s b pB = Inr vB \<and>
     findStationVelocityInGround s a pA = Inr vA \<and>
     findStationAccelerationInGround s b pB = Inr aB \<and>
     findStationAccelerationInGround s a pA = Inr aA \<and>
     calcStationToStationDistanceTimeDerivative s b pB a pA = Inr (norm3 (vsub vA vB)) \<and>
     calcStationToStationDistance2ndTimeDerivative s b pB a pA =
       Inr (if vsub vA vB = zero3 then norm3 (vsub aA aB)
            else dot (vsub aA aB) (sdiv (vsub vA vB) (norm3 (vsub vA vB))))"
proof -
  have vel: "isValid s Velocity" and pos: "isValid s Position"
    using assms(1) by (simp_all add: isValid_def)
  have same: "xformPoint (X_GB_cache s a) pA = xformPoint (X_GB_cache s b) pB"
    using assms(3) by (simp add: findStationLocationInGround_valid [OF pos])
  show ?thesis
    using assms(2)
    by (simp add: calcStationToStationDistanceTimeDerivative_def
        calcStationToStationDistance2ndTimeDerivative_def isSameMobilizedBody_def
        findStationVelocityInGround_valid [OF vel]
        findStationAccelerationInGround_valid [OF assms(1)]
        findStationLocationAndVelocityInGround_valid [OF vel]
        findStationLocationVelocityAndAccelerationInGround_valid [OF assms(1)]
        same vsub_self norm3_zero3 norm3_eq_0 Let_def)
qed

theorem coincident_station_distance_rates_witness:
  "isValid exampleState Acceleration \<and> (1::nat) \<noteq> 0 \<and>
   findStationLocationInGround exampleState 1 (0, 0, 0) =
     findStationLocationInGround exampleState 0 (1, 2, 3) \<and>
   calcStationToStationDistanceTimeDerivative exampleState 1 (0, 0, 0) 0 (1, 2, 3) = Inr 2 \<and>
   calcStationToStationDistance2ndTimeDerivative exampleState 1 (0, 0, 0) 0 (1, 2, 3) = Inr 4"
proof -
  have v: "isValid exampleState Acceleration"
    by (simp add: isValid_def exampleState_def)
  have pos: "isValid exampleState Position"
    by (simp add: isValid_def exampleState_def)
  have ne: "(1::nat) \<noteq> 0" by simp
  have co: "findStationLocationInGround exampleState 1 (0, 0, 0) =
     findStationLocationInGround exampleState 0 (1, 2, 3)"
    by (simp only: findStationLocationInGround_valid [OF pos])
      (simp add: exampleState_def xformPoint_def identityTransform_def ident33_def zero3_def
        quarterTurnZ_def)
  have vel: "isValid exampleState Velocity"
    by (simp add: isValid_def exampleState_def)
  have vB: "findStationVelocityInGround exampleState 1 (0, 0, 0) = Inr (0, 2, 0)"
    by (simp only: findStationVelocityInGround_valid [OF vel])
      (simp add: exampleState_def quarterTurnZ_def)
  have vA: "findStationVelocityInGround exampleState 0 (1, 2, 3) = Inr (0, 0, 0)"
    by (simp only: findStationVelocityInGround_valid [OF vel])
      (simp add: exampleState_def identityTransform_def ident33_def zero3_def)
  have aB: "findStationAccelerationInGround exampleState 1 (0, 0, 0) = Inr (0, 4, 0)"
    by (simp only: findStationAccelerationInGround_valid [OF v])
      (simp add: exampleState_def quarterTurnZ_def)
  have aA: "findStationAccelerationInGround exampleState 0 (1, 2, 3) = Inr (0, 0, 0)"
    by (simp only: findStationAccelerationInGround_valid [OF v])
      (simp add: exampleState_def identityTransform_def ident33_def zero3_def)
  have n: "norm3 (0, - 2, 0) = 2"
    by (simp add: norm3_def)
  show ?thesis
    using coincident_station_distance_rates [OF v ne co] v co
    by (simp add: vB vA aB aA n zero3_def del: One_nat_def)
qed

section \<open>Stages\<close>

text \<open>Claim C1. In a state fresh from a finalized topology, where only stage Topology
  is valid, \<^const>\<open>getBodyTransform\<close> fails with \<open>StageViolation\<close>, and it still fails after
  any sequence of realize requests none of which asks for Position: no read computes
  anything silently. In general a read of a quantity cached at stage \<open>S\<close> returns a
  value exactly when \<open>S\<close> is valid and fails with \<open>StageViolation\<close> otherwise; so do
  the reads of the cached pose, velocity and acceleration.\<close>

theorem read_before_realize_is_StageViolation:
  assumes "validThrough s0 = stageNum Topology" and "Position \<notin> set gs"
  shows "getBodyTransform s0 b = Inl StageViolation \<and>
     getBodyTransform (realizeEach calc s0 gs) b = Inl StageViolation \<and>
     ((\<exists>y. readCache s g x = Inr y) \<longleftrightarrow> isValid s g) \<and>
     (\<not> isValid s g \<longrightarrow> readCache s g x = Inl StageViolation) \<and>
     ((\<exists>X. getBodyTransform s b = Inr X) \<longleftrightarrow> isValid s Position) \<and>
     ((\<exists>V. getBodyVelocity s b = Inr V) \<longleftrightarrow> isValid s Velocity) \<and>
     ((\<exists>A. getBodyAcceleration s b = Inr A) \<longleftrightarrow> isValid s Acceleration)"
proof -
  have below: "validThrough s0 < stageNum Position"
    using assms(1) by simp
  have "validThrough (realizeEach calc s0 gs) < stageNum Position"
    by (rule realizeEach_below_Position [OF below assms(2)])
  then have "getBodyTransform (realizeEach calc s0 gs) b = Inl StageViolation"
    by (simp add: getBodyTransform_def readCache_def isValid_def)
  moreover have "getBodyTransform s0 b = Inl StageViolation"
    using below by (simp add: getBodyTransform_def readCache_def isValid_def)
  moreover have "(\<exists>y. readCache s g x = Inr y) \<longleftrightarrow> isValid s g"
    by (simp add: readCache_def)
  moreover have "\<not> isValid s g \<longrightarrow> readCache s g x = Inl StageViolation"
    by (simp add: readCache_def)
  moreover have "(\<exists>X. getBodyTransform s b = Inr X) \<longleftrightarrow> isValid s Position"
    by (simp add: getBodyTransform_Inr)
  moreover have "(\<exists>V. getBodyVelocity s b = Inr V) \<longleftrightarrow> isValid s Velocity"
    by (simp add: getBodyVelocity_Inr)
  moreover have "(\<exists>A. getBodyAcceleration s b = Inr A) \<longleftrightarrow> isValid s Acceleration"
    by (simp add: getBodyAcceleration_Inr)
  ultimately show ?thesis
    by blast
qed

theorem read_before_realize_is_StageViolation_witness:
  "validThrough freshState = stageNum Topology \<and>
   Position \<notin> set [Model, Instance, Velocity, Time] \<and>
   getBodyTransform freshState 1 = Inl StageViolation \<and>
   getBodyTransform (realizeEach (\<lambda>g s. s) freshState [Model, Instance, Velocity, Time]) 1
     = Inl StageViolation \<and>
   isValid exampleState Position \<and>
   (\<exists>X. getBodyTransform exampleState 1 = Inr X)"
proof -
  have f: "validThrough freshState = stageNum Topology"
    by (simp add: freshState_def)
  have n: "Position \<notin> set [Model, Instance, Velocity, Time]"
    by simp
  have v: "isValid exampleState Position"
    by (simp add: isValid_def exampleState_def)
  show ?thesis
    using read_before_realize_is_StageViolation
      [OF f n, of 1 "\<lambda>g s. s" exampleState Position "()" ] f n v
    by simp
qed

section \<open>Unimplemented operators\<close>

text \<open>Claim C6. The operators that are not implemented, \<^const>\<open>getMobilizerAcceleration\<close>
  and the four moving-point operators, fail with an assertion for every input; none
  returns a number.\<close>

theorem unimplemented_operators_always_fail:
  "(\<exists>msg. getMobilizerAcceleration s b = Inl (AssertFailed msg)) \<and>
   (\<exists>msg. calcBodyMovingPointVelocityInBody s b locationOnBodyB velocityOnBodyB inBodyA
      = Inl (AssertFailed msg)) \<and>
   (\<exists>msg. calcBodyMovingPointAccelerationInBody s b locationOnBodyB velocityOnBodyB
      accelerationOnBodyB inBodyA = Inl (AssertFailed msg)) \<and>
   (\<exists>msg. calcMovingPointToPointDistanceTimeDerivative s b locationOnBodyB velocityOnBodyB
      bodyA locationOnBodyA velocityOnBodyA = Inl (AssertFailed msg)) \<and>
   (\<exists>msg. calcMovingPointToPointDistance2ndTimeDerivative s b locationOnBodyB velocityOnBodyB
      accelerationOnBodyB bodyA locationOnBodyA velocityOnBodyA accelerationOnBodyA
      = Inl (AssertFailed msg))"
  by (simp add: getMobilizerAcceleration_def calcBodyMovingPointVelocityInBody_def
      calcBodyMovingPointAccelerationInBody_def
      calcMovingPointToPointDistanceTimeDerivative_def
      calcMovingPointToPointDistance2ndTimeDerivative_def SimTK_ASSERT_ALWAYS_def)

section \<open>Index and level invariant of the tree\<close>

lemma constructed_chainTree: "constructed chainTree"
proof -
  have a1: "addBody newTree 0 1 1 = Inr (1, chainOfOne)"
    by (simp add: addBody_def newTree_def chainOfOne_def)
  have a2: "addBody chainOfOne 1 1 1 = Inr (2, chainOfTwo)"
    by (simp add: addBody_def chainOfOne_def chainOfTwo_def)
  have "constructed chainOfOne"
    by (rule constructed.add [OF constructed.new a1])
  then have "constructed chainOfTwo"
    by (rule constructed.add [OF _ a2])
  then show ?thesis
    unfolding chainTree_def by (rule constructed.finalize)
qed

text \<open>Claim C7. In every tree built from the new tree by \<^const>\<open>addBody\<close> and
  \<^const>\<open>finalizeTopology\<close>, Ground sits at index 0 and has no parent, every other node
  has a parent of smaller index, and, once the topology is finalized, the level of
  Ground is 0 and the level of every node with a parent is the level of the parent
  plus one.\<close>

theorem tree_index_and_level_invariant:
  assumes "constructed t"
  shows "nodes t \<noteq> [] \<and>
     getParentMobilizedBody t 0 = Inl GroundHasNoParent \<and>
     (\<forall>b. 0 < b \<and> b < length (nodes t) \<longrightarrow>
        (\<exists>parent. getParentMobilizedBody t b = Inr parent \<and> parent < b)) \<and>
     (topologyRealized t \<longrightarrow>
        getLevelInMultibodyTree t 0 = Inr 0 \<and>
        (\<forall>b parent. getParentMobilizedBody t b = Inr parent \<longrightarrow>
           (\<exists>l. getLevelInMultibodyTree t parent = Inr l \<and>
                getLevelInMultibodyTree t b = Inr (l + 1))))"
proof -
  have wf: "wfNodes (nodes t)"
    and lv: "topologyRealized t \<longrightarrow> levels t = computeLevels (nodes t)"
    using constructed_invariant [OF assms] by simp_all
  have ne: "nodes t \<noteq> []" and g: "parentIndex (nodes t ! 0) = None"
    and pb: "parentsBelow (nodes t)"
    using wf by (simp_all add: wfNodes_def)
  have ground: "getParentMobilizedBody t 0 = Inl GroundHasNoParent"
    using ne g by (simp add: getParentMobilizedBody_def)
  have parent: "\<exists>parent. getParentMobilizedBody t b = Inr parent \<and> parent < b"
    if range: "0 < b \<and> b < length (nodes t)" for b
  proof -
    have "parentIndex (nodes t ! b) \<noteq> None"
      using wf range by (simp add: wfNodes_def)
    then obtain parent where some: "parentIndex (nodes t ! b) = Some parent"
      by auto
    then have "parent < b"
      using pb range by (simp add: parentsBelow_def)
    then show ?thesis
      using range some by (simp add: getParentMobilizedBody_def)
  qed
  have level: "getLevelInMultibodyTree t 0 = Inr 0 \<and>
        (\<forall>b parent. getParentMobilizedBody t b = Inr parent \<longrightarrow>
           (\<exists>l. getLevelInMultibodyTree t parent = Inr l \<and>
                getLevelInMultibodyTree t b = Inr (l + 1)))"
    if real: "topologyRealized t"
  proof (intro conjI allI impI)
    have "computeLevels (nodes t) ! 0 = 0"
      using computeLevels_nth [OF pb, of 0] ne g by simp
    then show "getLevelInMultibodyTree t 0 = Inr 0"
      using real lv ne by (simp add: getLevelInMultibodyTree_def)
  next
    fix b parent
    assume gp: "getParentMobilizedBody t b = Inr parent"
    then have b: "b < length (nodes t)" and p: "parentIndex (nodes t ! b) = Some parent"
      by (auto simp add: getParentMobilizedBody_def split: if_splits option.splits)
    have lt: "parent < b" using pb b p by (simp add: parentsBelow_def)
    have "computeLevels (nodes t) ! b = computeLevels (nodes t) ! parent + 1"
      using computeLevels_nth [OF pb b] p by simp
    then show "\<exists>l. getLevelInMultibodyTree t parent = Inr l \<and>
                getLevelInMultibodyTree t b = Inr (l + 1)"
      using real lv b lt by (simp add: getLevelInMultibodyTree_def)
  qed
  show ?thesis
    using ne ground parent level by blast
qed

theorem tree_index_and_level_invariant_witness:
  "constructed chainTree \<and> topologyRealized chainTree \<and>
   nodes chainTree \<noteq> [] \<and>
   getParentMobilizedBody chainTree 0 = Inl GroundHasNoParent \<and>
   getParentMobilizedBody chainTree 2 = Inr 1 \<and>
   (\<exists>parent. getParentMobilizedBody chainTree 2 = Inr parent \<and> parent < 2) \<and>
   getLevelInMultibodyTree chainTree 0 = Inr 0 \<and>
   (\<exists>l. getLevelInMultibodyTree chainTree 1 = Inr l \<and>
        getLevelInMultibodyTree chainTree 2 = Inr (l + 1))"
proof -
  have real: "topologyRealized chainTree"
    by (simp add: chainTree_def finalizeTopology_def)
  have p2: "getParentMobilizedBody chainTree 2 = Inr 1"
    by (simp add: getParentMobilizedBody_def chainTree_def finalizeTopology_def chainOfTwo_def)
  have len: "0 < (2::nat) \<and> 2 < length (nodes chainTree)"
    by (simp add: chainTree_def finalizeTopology_def chainOfTwo_def)
  show ?thesis
    using tree_index_and_level_invariant [OF constructed_chainTree] real p2 len
      constructed_chainTree
    by blast
qed

section \<open>Fitting setters\<close>

text \<open>Claim C8. A rotation-only fitting setter (\<^const>\<open>setQToFitRotation\<close>) on a
  mobilizer all of whose coordinates are translational, and a translation-only
  fitting setter on a mobilizer all of whose coordinates are rotational, return
  without an error and leave the state as it was, whatever the state and the
  request.\<close>

theorem mismatched_fitting_setter_is_noop:
  "((\<forall>k \<in> set (qKinds m). k = TranslationalQ) \<longrightarrow>
      setQToFitRotation m s b R_FM = Inr s) \<and>
   ((\<forall>k \<in> set (qKinds m). k = RotationalQ) \<longrightarrow>
      setQToFitTranslationOnly m s b p_FM = Inr s)"
proof (intro conjI impI)
  assume "\<forall>k \<in> set (qKinds m). k = TranslationalQ"
  then have "\<forall>k \<in> set (qKinds m). k \<noteq> RotationalQ" by auto
  then show "setQToFitRotation m s b R_FM = Inr s"
    by (simp add: setQToFitRotation_def coordsOfKind_none)
next
  assume "\<forall>k \<in> set (qKinds m). k = RotationalQ"
  then have "\<forall>k \<in> set (qKinds m). k \<noteq> TranslationalQ" by auto
  then show "setQToFitTranslationOnly m s b p_FM = Inr s"
    by (simp add: setQToFitTranslationOnly_def coordsOfKind_none)
qed

theorem mismatched_fitting_setter_is_noop_witness:
  "qKinds sliderMobilizer = [TranslationalQ] \<and>
   setQToFitRotation sliderMobilizer exampleState 1 quarterTurnZ = Inr exampleState \<and>
   qKinds pinMobilizer = [RotationalQ] \<and>
   setQToFitTranslationOnly pinMobilizer exampleState 1 (1, 2, 3) = Inr exampleState"
proof -
  have sl: "qKinds sliderMobilizer = [TranslationalQ]"
    by (simp add: sliderMobilizer_def)
  have pn: "qKinds pinMobilizer = [RotationalQ]"
    by (simp add: pinMobilizer_def)
  have sl': "\<forall>k \<in> set (qKinds sliderMobilizer). k = TranslationalQ"
    by (simp add: sl)
  have pn': "\<forall>k \<in> set (qKinds pinMobilizer). k = RotationalQ"
    by (simp add: pn)
  show ?thesis
    using mismatched_fitting_setter_is_noop [of sliderMobilizer exampleState 1 quarterTurnZ "(1, 2, 3)"]
      mismatched_fitting_setter_is_noop [of pinMobilizer exampleState 1 quarterTurnZ "(1, 2, 3)"]
      sl pn sl' pn'
    by blast
qed

end
